theory Spec2Isabelle
  imports Main "HOL-Library.Multiset"
begin

section \<open>JavaScript primitives used by the facilitator\<close>

text \<open>
  A string is the list of the bytes of its UTF-8 encoding (a lone surrogate being
  encoded like any other code point). An ASCII character is one byte below \<^verbatim>\<open>0x80\<close>, and
  every byte of any other character is \<^verbatim>\<open>0x80\<close> or above; so equality of strings, the
  template strings of the code, which join their parts with an ASCII character, and
  \<^verbatim>\<open>startsWith\<close> and \<^verbatim>\<open>includes\<close> with the ASCII patterns of the code, are the same on
  the bytes as on the UTF-16 code units.
\<close>

text \<open>\<^verbatim>\<open>String.prototype.startsWith\<close> and \<^verbatim>\<open>String.prototype.includes\<close>.\<close>

definition startsWith :: "string \<Rightarrow> string \<Rightarrow> bool" where
  "startsWith s p = (take (length p) s = p)"

fun str_includes :: "string \<Rightarrow> string \<Rightarrow> bool" where
  "str_includes [] p = (p = [])"
| "str_includes (c # cs) p = (startsWith (c # cs) p \<or> str_includes cs p)"

text \<open>
  \<^verbatim>\<open>String.prototype.toLowerCase\<close>. On an ASCII string it maps the letters \<^verbatim>\<open>A\<close> to \<^verbatim>\<open>Z\<close>
  to \<^verbatim>\<open>a\<close> to \<^verbatim>\<open>z\<close> and leaves every other character. On any other string the result
  is what the Unicode case tables of the JavaScript runtime give, which may change the
  length of the string and may turn a non-ASCII character into an ASCII one; the tables
  are the parameter \<open>unicode\<close>, of which nothing is assumed.
\<close>

definition lower_char :: "char \<Rightarrow> char" where
  "lower_char c =
     (case map_of (zip ''ABCDEFGHIJKLMNOPQRSTUVWXYZ'' ''abcdefghijklmnopqrstuvwxyz'') c of
        Some d \<Rightarrow> d
      | None \<Rightarrow> c)"

definition is_ascii :: "string \<Rightarrow> bool" where
  "is_ascii s = list_all (\<lambda>c. \<not> digit7 c) s"

definition toLowerCase :: "(string \<Rightarrow> string) \<Rightarrow> string \<Rightarrow> string" where
  "toLowerCase unicode s = (if is_ascii s then map lower_char s else unicode s)"

text \<open>
  The white space that \<^verbatim>\<open>parseInt\<close> and \<^verbatim>\<open>BigInt\<close> strip: the characters of the
  productions \<^verbatim>\<open>WhiteSpace\<close> and \<^verbatim>\<open>LineTerminator\<close> of ECMAScript, each in UTF-8. These are
  TAB, LF, VT, FF, CR, SPACE, U+00A0, U+1680, U+2000 to U+200A, U+2028, U+2029, U+202F,
  U+205F, U+3000 and U+FEFF.
\<close>

definition white_space :: "string list" where
  "white_space =
     [[CHR 0x09], [CHR 0x0A], [CHR 0x0B], [CHR 0x0C], [CHR 0x0D], [CHR 0x20],
      [CHR 0xC2, CHR 0xA0],
      [CHR 0xE1, CHR 0x9A, CHR 0x80],
      [CHR 0xE2, CHR 0x80, CHR 0x80], [CHR 0xE2, CHR 0x80, CHR 0x81],
      [CHR 0xE2, CHR 0x80, CHR 0x82], [CHR 0xE2, CHR 0x80, CHR 0x83],
      [CHR 0xE2, CHR 0x80, CHR 0x84], [CHR 0xE2, CHR 0x80, CHR 0x85],
      [CHR 0xE2, CHR 0x80, CHR 0x86], [CHR 0xE2, CHR 0x80, CHR 0x87],
      [CHR 0xE2, CHR 0x80, CHR 0x88], [CHR 0xE2, CHR 0x80, CHR 0x89],
      [CHR 0xE2, CHR 0x80, CHR 0x8A],
      [CHR 0xE2, CHR 0x80, CHR 0xA8], [CHR 0xE2, CHR 0x80, CHR 0xA9],
      [CHR 0xE2, CHR 0x80, CHR 0xAF],
      [CHR 0xE2, CHR 0x81, CHR 0x9F],
      [CHR 0xE3, CHR 0x80, CHR 0x80],
      [CHR 0xEF, CHR 0xBB, CHR 0xBF]]"

text \<open>
  \<open>white_prefix seqs s\<close> is the number of bytes of the white-space character at the head
  of \<open>s\<close>, zero when there is none; \<open>strip\<close> removes such characters from the head.
  \<open>trimStart\<close> strips the head of a string and \<open>trim\<close> both ends, the tail being stripped
  on the reversed string with the reversed byte sequences.
\<close>

definition white_prefix :: "string list \<Rightarrow> string \<Rightarrow> nat" where
  "white_prefix seqs s = (case find (startsWith s) seqs of None \<Rightarrow> 0 | Some ws \<Rightarrow> length ws)"

fun strip :: "string list \<Rightarrow> string \<Rightarrow> string" where
  "strip seqs [] = []"
| "strip seqs (c # cs) =
     (if white_prefix seqs (c # cs) = 0 then c # cs
      else strip seqs (drop (white_prefix seqs (c # cs) - 1) cs))"

definition trimStart :: "string \<Rightarrow> string" where
  "trimStart s = strip white_space s"

definition trim :: "string \<Rightarrow> string" where
  "trim s = rev (strip (map rev white_space) (rev (trimStart s)))"

text \<open>
  A JavaScript number that holds an integer, an infinity or \<^verbatim>\<open>NaN\<close>: the values that
  \<^verbatim>\<open>parseInt\<close> can return. \<open>to_double\<close> is the double nearest to an integer, ties going
  to the even mantissa: an integer below \<open>2^53\<close> in magnitude is kept, a larger one is
  rounded to 53 significant bits, and a result of magnitude \<open>2^1024\<close> or more is an
  infinity. \<open>bit_width\<close> is the number of binary digits of a positive integer.
\<close>

datatype number = NaN | Finite int | PosInfinity | NegInfinity

function bit_width :: "int \<Rightarrow> nat" where
  "bit_width n = (if n \<le> 0 then 0 else Suc (bit_width (n div 2)))"
  by pat_completeness auto
termination
  by (relation "measure nat") auto

declare bit_width.simps [simp del]

definition round_magnitude :: "int \<Rightarrow> int option" where
  "round_magnitude m =
     (if m < 2 ^ 53 then Some m
      else
        (let e = bit_width m - 53;
             q = m div 2 ^ e;
             r = m mod 2 ^ e;
             half = 2 ^ (e - 1);
             q' = (if half < r \<or> (r = half \<and> odd q) then q + 1 else q)
         in if 2 ^ 1024 \<le> q' * 2 ^ e then None else Some (q' * 2 ^ e)))"

definition to_double :: "int \<Rightarrow> number" where
  "to_double n =
     (case round_magnitude \<bar>n\<bar> of
        None \<Rightarrow> if n < 0 then NegInfinity else PosInfinity
      | Some m \<Rightarrow> Finite (if n < 0 then - m else m))"

text \<open>
  Digits for the two string-to-number conversions: \<open>digitVal\<close> gives the value of a digit
  in any radix up to sixteen.
\<close>

definition digitVal :: "char \<Rightarrow> int option" where
  "digitVal c = map_of
     [(CHR ''0'', 0), (CHR ''1'', 1), (CHR ''2'', 2), (CHR ''3'', 3), (CHR ''4'', 4),
      (CHR ''5'', 5), (CHR ''6'', 6), (CHR ''7'', 7), (CHR ''8'', 8), (CHR ''9'', 9),
      (CHR ''a'', 10), (CHR ''b'', 11), (CHR ''c'', 12), (CHR ''d'', 13), (CHR ''e'', 14),
      (CHR ''f'', 15), (CHR ''A'', 10), (CHR ''B'', 11), (CHR ''C'', 12), (CHR ''D'', 13),
      (CHR ''E'', 14), (CHR ''F'', 15)] c"

fun digitsPrefix :: "int \<Rightarrow> string \<Rightarrow> int list" where
  "digitsPrefix R [] = []"
| "digitsPrefix R (c # cs) =
     (case digitVal c of
        None \<Rightarrow> []
      | Some d \<Rightarrow> if d < R then d # digitsPrefix R cs else [])"

definition fromDigits :: "int \<Rightarrow> int list \<Rightarrow> int" where
  "fromDigits R ds = foldl (\<lambda>acc d. acc * R + d) 0 ds"

text \<open>
  \<^verbatim>\<open>parseInt(string)\<close> with no radix: leading white space is dropped, one sign is read,
  a \<^verbatim>\<open>0x\<close> prefix selects radix sixteen, and the longest prefix of digits is read as an
  integer; with no digit the result is \<^verbatim>\<open>NaN\<close>, and otherwise the double nearest to the
  signed integer, as V8 computes it. The result \<^verbatim>\<open>-0\<close> is not told from \<^verbatim>\<open>0\<close>: the two
  compare equal and are both falsy.
\<close>

definition parseInt :: "string \<Rightarrow> number" where
  "parseInt str =
     (let s = trimStart str;
          neg = (case s of [] \<Rightarrow> False | c # _ \<Rightarrow> c = CHR ''-'');
          s1 = (case s of [] \<Rightarrow> s
                | c # cs \<Rightarrow> if c = CHR ''+'' \<or> c = CHR ''-'' then cs else s);
          hex = (startsWith s1 ''0x'' \<or> startsWith s1 ''0X'');
          R = (if hex then 16 else 10);
          ds = digitsPrefix R (if hex then drop 2 s1 else s1)
      in if ds = [] then NaN
         else to_double ((if neg then - 1 else 1) * fromDigits R ds))"

text \<open>
  \<^verbatim>\<open>BigInt(string)\<close>: white space is trimmed at both ends; the empty string is zero; a
  decimal literal may carry one sign; \<^verbatim>\<open>0x\<close>, \<^verbatim>\<open>0o\<close> and \<^verbatim>\<open>0b\<close> literals carry none;
  every character must be a digit of the radix. Anything else throws a
  \<^verbatim>\<open>SyntaxError\<close>, here \<open>None\<close>. The result is the exact integer.
\<close>

definition allDigits :: "int \<Rightarrow> string \<Rightarrow> int option" where
  "allDigits R s =
     (let ds = digitsPrefix R s
      in if s \<noteq> [] \<and> length ds = length s then Some (fromDigits R ds) else None)"

definition BigInt :: "string \<Rightarrow> int option" where
  "BigInt str =
     (let s = trim str
      in if s = [] then Some 0
         else if startsWith s ''0x'' \<or> startsWith s ''0X'' then allDigits 16 (drop 2 s)
         else if startsWith s ''0o'' \<or> startsWith s ''0O'' then allDigits 8 (drop 2 s)
         else if startsWith s ''0b'' \<or> startsWith s ''0B'' then allDigits 2 (drop 2 s)
         else if hd s = CHR ''-'' then map_option uminus (allDigits 10 (tl s))
         else if hd s = CHR ''+'' then allDigits 10 (tl s)
         else allDigits 10 s)"

text \<open>
  Comparisons of an integer \<open>a\<close> with a number \<open>b\<close>: \<open>js_lt a b\<close> is \<^verbatim>\<open>a < b\<close> and
  \<open>js_gt a b\<close> is \<^verbatim>\<open>a > b\<close>. Every comparison with \<^verbatim>\<open>NaN\<close> is false.
\<close>

definition js_lt :: "int \<Rightarrow> number \<Rightarrow> bool" where
  "js_lt a b =
     (case b of NaN \<Rightarrow> False | Finite y \<Rightarrow> a < y | PosInfinity \<Rightarrow> True | NegInfinity \<Rightarrow> False)"

definition js_gt :: "int \<Rightarrow> number \<Rightarrow> bool" where
  "js_gt a b =
     (case b of NaN \<Rightarrow> False | Finite y \<Rightarrow> a > y | PosInfinity \<Rightarrow> False | NegInfinity \<Rightarrow> True)"

text \<open>
  \<^verbatim>\<open>Array.prototype.slice(start, end)\<close> on integer arguments: a negative index counts
  from the end, and both indices are clamped to the array.
\<close>

definition js_slice :: "'a list \<Rightarrow> int \<Rightarrow> int \<Rightarrow> 'a list" where
  "js_slice xs start fin =
     (let len = int (length xs);
          k = (if start < 0 then max (len + start) 0 else min start len);
          e = (if fin < 0 then max (len + fin) 0 else min fin len)
      in take (nat (e - k)) (drop (nat k) xs))"

text \<open>
  The same on numbers, with the sum and the falsy test of numbers: \<^verbatim>\<open>NaN\<close> is read as
  index zero, an infinity is clamped to the array; the sum of two numbers is the double
  nearest to the exact sum, and the sum of the two infinities is \<^verbatim>\<open>NaN\<close>;
  \<^verbatim>\<open>x || d\<close> is \<open>d\<close> for \<^verbatim>\<open>NaN\<close> and for zero.
\<close>

definition slice_index :: "int \<Rightarrow> number \<Rightarrow> int" where
  "slice_index len x =
     (case x of
        NaN \<Rightarrow> 0
      | Finite i \<Rightarrow> if i < 0 then max (len + i) 0 else min i len
      | PosInfinity \<Rightarrow> len
      | NegInfinity \<Rightarrow> 0)"

definition js_slice_number :: "'a list \<Rightarrow> number \<Rightarrow> number \<Rightarrow> 'a list" where
  "js_slice_number xs start fin =
     (let len = int (length xs);
          k = slice_index len start;
          e = slice_index len fin
      in take (nat (e - k)) (drop (nat k) xs))"

definition js_add :: "number \<Rightarrow> number \<Rightarrow> number" where
  "js_add x y =
     (case x of
        NaN \<Rightarrow> NaN
      | Finite a \<Rightarrow> (case y of Finite b \<Rightarrow> to_double (a + b) | _ \<Rightarrow> y)
      | PosInfinity \<Rightarrow> (case y of NaN \<Rightarrow> NaN | NegInfinity \<Rightarrow> NaN | _ \<Rightarrow> PosInfinity)
      | NegInfinity \<Rightarrow> (case y of NaN \<Rightarrow> NaN | PosInfinity \<Rightarrow> NaN | _ \<Rightarrow> NegInfinity))"

definition or_number :: "number \<Rightarrow> number \<Rightarrow> number" where
  "or_number x d = (if x = NaN \<or> x = Finite 0 then d else x)"

section \<open>The data model (types/index.ts)\<close>

text \<open>
  \<^verbatim>\<open>ErrorReason\<close> is the closed list of reason strings. A thrown exception is a value
  of type \<open>fault\<close>; a call that may throw returns \<open>fault + 'a\<close>, with \<open>Inl\<close> for the
  throw. Record fields keep the source's names, with a short prefix where two interfaces
  share a field name or the name is an Isabelle keyword. Fields that no modelled function
  reads (\<^verbatim>\<open>mimeType\<close>, \<^verbatim>\<open>maxTimeoutSeconds\<close>, \<^verbatim>\<open>extra\<close>, the payload's own
  \<^verbatim>\<open>x402Version\<close> and \<^verbatim>\<open>scheme\<close>) are left out.
\<close>

datatype ErrorReason =
    invalid_signature
  | invalid_payload
  | invalid_network
  | invalid_scheme
  | invalid_x402_version
  | payment_expired
  | insufficient_funds
  | recipient_mismatch
  | amount_mismatch
  | settlement_failed
  | unsupported_network
  | unexpected_error

datatype fault =
    UnsupportedNetworkError
  | UnsupportedChainIdError
  | TypeError
  | SyntaxError
  | TokenAccountNotFoundError
  | RpcError
  | LibraryError

record EvmAuthorization =
  auth_from :: string
  auth_to :: string
  auth_value :: string
  validAfter :: string
  validBefore :: string
  nonce :: string

text \<open>
  The request body is untyped JSON that the handlers cast to one payload interface or the
  other. \<open>PayloadData\<close> is the \<^verbatim>\<open>payload\<close> member in either shape; \<open>pp_network\<close> is the
  root \<^verbatim>\<open>network\<close> member and \<open>accepted_network\<close> is \<^verbatim>\<open>accepted.network\<close>, each \<open>None\<close>
  when the member is absent.
\<close>

datatype PayloadData =
    EvmData string EvmAuthorization
  | SolanaData string

record PaymentPayload =
  pp_network :: "string option"
  accepted_network :: "string option"
  payload :: PayloadData

type_synonym json = string

record BazaarOutput =
  example :: "json option"

record BazaarInfo =
  info_input :: "json option"
  info_output :: "BazaarOutput option"

record BazaarExtension =
  info :: "BazaarInfo option"
  schema :: "json option"

record PaymentRequirements =
  scheme :: string
  pr_network :: string
  maxAmountRequired :: string
  resource :: string
  description :: string
  payTo :: string
  asset :: string
  bazaar :: "BazaarExtension option"

record VerifyResponse =
  isValid :: bool
  invalidReason :: "ErrorReason option"
  payer :: "string option"

record SettleResponse =
  success :: bool
  transaction :: "string option"
  sr_network :: "string option"
  errorReason :: "ErrorReason option"
  sr_payer :: "string option"

section \<open>The Account-Authorization backend (base/index.ts)\<close>

text \<open>
  Everything outside the code of the facilitator is a field of \<open>EvmWorld\<close>: the
  typed-data signature check of viem, the two contract reads, the key derivation, the
  contract write and the wait for its receipt, each of which may throw, and the Unicode
  case tables of the JavaScript runtime. A call that goes through a client takes the RPC
  endpoint of the client first; the chain id selects the chain configuration and the
  USDC contract address \<^verbatim>\<open>USDC_ADDRESSES[chainId]\<close>.
\<close>

record TypedMessage =
  m_from :: string
  m_to :: string
  m_value :: int
  m_validAfter :: int
  m_validBefore :: int
  m_nonce :: string

record EvmWorld =
  verifyTypedData :: "nat \<Rightarrow> TypedMessage \<Rightarrow> string \<Rightarrow> fault + bool"
  balanceOf :: "string \<Rightarrow> nat \<Rightarrow> string \<Rightarrow> fault + int"
  authorizationState :: "string \<Rightarrow> nat \<Rightarrow> string \<Rightarrow> string \<Rightarrow> fault + bool"
  privateKeyToAccount :: "string \<Rightarrow> fault + string"
  writeContract ::
    "string \<Rightarrow> nat \<Rightarrow> string \<Rightarrow> TypedMessage \<Rightarrow> string \<Rightarrow> fault + string"
  waitForTransactionReceipt :: "string \<Rightarrow> string \<Rightarrow> fault + bool"
  unicodeLowerCase :: "string \<Rightarrow> string"

text \<open>A ledger write that settlement attempted, with what was handed to the chain.\<close>

datatype EvmWrite = TransferWithAuthorization nat string TypedMessage string

datatype Chain = base_chain | baseSepolia

definition getChainId :: "string option \<Rightarrow> fault + nat" where
  "getChainId network =
     (if network = Some ''base'' \<or> network = Some ''eip155:8453'' then Inr 8453
      else if network = Some ''base-sepolia'' \<or> network = Some ''eip155:84532'' then Inr 84532
      else Inl UnsupportedNetworkError)"

definition getChain :: "nat \<Rightarrow> fault + Chain" where
  "getChain chainId =
     (if chainId = 8453 then Inr base_chain
      else if chainId = 84532 then Inr baseSepolia
      else Inl UnsupportedChainIdError)"

record BaseFacilitator =
  rpcUrl :: string
  privateKey :: "string option"
  chainId :: nat

text \<open>The constructor: an absent or empty key is \<^verbatim>\<open>null\<close>, a zero or absent chain id is 8453.\<close>

definition BaseFacilitator_new :: "string \<Rightarrow> string option \<Rightarrow> nat option \<Rightarrow> BaseFacilitator" where
  "BaseFacilitator_new url key cid =
     \<lparr>rpcUrl = url,
      privateKey = (case key of None \<Rightarrow> None | Some k \<Rightarrow> if k = [] then None else Some k),
      chainId = (case cid of None \<Rightarrow> 8453 | Some n \<Rightarrow> if n = 0 then 8453 else n)\<rparr>"

definition typed_message :: "EvmAuthorization \<Rightarrow> int \<Rightarrow> int \<Rightarrow> int \<Rightarrow> TypedMessage" where
  "typed_message a v va vb =
     \<lparr>m_from = auth_from a, m_to = auth_to a, m_value = v, m_validAfter = va,
      m_validBefore = vb, m_nonce = nonce a\<rparr>"

definition invalid :: "ErrorReason \<Rightarrow> string \<Rightarrow> VerifyResponse" where
  "invalid r p = \<lparr>isValid = False, invalidReason = Some r, payer = Some p\<rparr>"

definition valid :: "string \<Rightarrow> VerifyResponse" where
  "valid p = \<lparr>isValid = True, invalidReason = None, payer = Some p\<rparr>"

definition verify_unexpected :: VerifyResponse where
  "verify_unexpected = \<lparr>isValid = False, invalidReason = Some unexpected_error, payer = None\<rparr>"

text \<open>
  The body of the \<^verbatim>\<open>try\<close> block of \<^verbatim>\<open>BaseFacilitator.verify\<close>, in the order of the source:
  the chain id, the destructuring of the payload, the six checks. \<open>clock\<close> is
  \<^verbatim>\<open>Date.now()\<close> in milliseconds. The three \<^verbatim>\<open>BigInt\<close> conversions are evaluated when the
  message for the signature check is built, in the order value, validAfter, validBefore.
\<close>

definition Base_verify_try ::
  "BaseFacilitator \<Rightarrow> EvmWorld \<Rightarrow> int \<Rightarrow> PaymentPayload \<Rightarrow> PaymentRequirements
     \<Rightarrow> fault + VerifyResponse" where
  "Base_verify_try fac w clock pp req =
     (case getChainId (pp_network pp) of
        Inl e \<Rightarrow> Inl e
      | Inr cid \<Rightarrow>
     (case payload pp of
        SolanaData _ \<Rightarrow> Inl TypeError
      | EvmData signature a \<Rightarrow>
     (let now = clock div 1000 in
      if js_lt now (parseInt (validAfter a)) then Inr (invalid payment_expired (auth_from a))
      else if js_gt now (parseInt (validBefore a)) then Inr (invalid payment_expired (auth_from a))
      else if auth_value a \<noteq> maxAmountRequired req
        then Inr (invalid amount_mismatch (auth_from a))
      else if toLowerCase (unicodeLowerCase w) (auth_to a)
                \<noteq> toLowerCase (unicodeLowerCase w) (payTo req)
        then Inr (invalid recipient_mismatch (auth_from a))
      else
     (case BigInt (auth_value a) of None \<Rightarrow> Inl SyntaxError | Some v \<Rightarrow>
     (case BigInt (validAfter a) of None \<Rightarrow> Inl SyntaxError | Some va \<Rightarrow>
     (case BigInt (validBefore a) of None \<Rightarrow> Inl SyntaxError | Some vb \<Rightarrow>
     (case verifyTypedData w cid (typed_message a v va vb) signature of
        Inl e \<Rightarrow> Inl e
      | Inr ok \<Rightarrow>
      if \<not> ok then Inr (invalid invalid_signature (auth_from a))
      else
     (case getChain cid of
        Inl e \<Rightarrow> Inl e
      | Inr _ \<Rightarrow>
     (case balanceOf w (rpcUrl fac) cid (auth_from a) of
        Inl e \<Rightarrow> Inl e
      | Inr balance \<Rightarrow>
      if balance < v then Inr (invalid insufficient_funds (auth_from a))
      else
     (case authorizationState w (rpcUrl fac) cid (auth_from a) (nonce a) of
        Inl e \<Rightarrow> Inl e
      | Inr nonceUsed \<Rightarrow>
      if nonceUsed then Inr (invalid invalid_payload (auth_from a))
      else Inr (valid (auth_from a))))))))))))"

text \<open>\<^verbatim>\<open>BaseFacilitator.verify\<close>: the \<^verbatim>\<open>catch\<close> turns every throw into \<^verbatim>\<open>unexpected_error\<close>.\<close>

definition Base_verify ::
  "BaseFacilitator \<Rightarrow> EvmWorld \<Rightarrow> int \<Rightarrow> PaymentPayload \<Rightarrow> PaymentRequirements
     \<Rightarrow> VerifyResponse" where
  "Base_verify fac w clock pp req =
     (case Base_verify_try fac w clock pp req of
        Inl _ \<Rightarrow> verify_unexpected
      | Inr r \<Rightarrow> r)"

text \<open>
  \<^verbatim>\<open>BaseFacilitator.settle\<close>. The result is the response together with the ledger writes
  that were attempted, in order. \<open>settle_aborted\<close> is the response of the key guard and of
  the \<^verbatim>\<open>catch\<close> block.
\<close>

definition settle_aborted :: "string option \<Rightarrow> SettleResponse" where
  "settle_aborted network =
     \<lparr>success = False, transaction = None, sr_network = network,
      errorReason = Some settlement_failed, sr_payer = None\<rparr>"

definition settle_rejected :: "VerifyResponse \<Rightarrow> string option \<Rightarrow> SettleResponse" where
  "settle_rejected verification network =
     \<lparr>success = False, transaction = None, sr_network = network,
      errorReason = invalidReason verification, sr_payer = payer verification\<rparr>"

definition Base_settle ::
  "BaseFacilitator \<Rightarrow> EvmWorld \<Rightarrow> int \<Rightarrow> PaymentPayload \<Rightarrow> PaymentRequirements
     \<Rightarrow> SettleResponse \<times> EvmWrite list" where
  "Base_settle fac w clock pp req =
     (case privateKey fac of
        None \<Rightarrow> (settle_aborted (pp_network pp), [])
      | Some key \<Rightarrow>
     (let verification = Base_verify fac w clock pp req in
      if \<not> isValid verification then (settle_rejected verification (pp_network pp), [])
      else
     (case getChainId (pp_network pp) of
        Inl _ \<Rightarrow> (settle_aborted (pp_network pp), [])
      | Inr cid \<Rightarrow>
     (case getChain cid of
        Inl _ \<Rightarrow> (settle_aborted (pp_network pp), [])
      | Inr _ \<Rightarrow>
     (case payload pp of
        SolanaData _ \<Rightarrow> (settle_aborted (pp_network pp), [])
      | EvmData signature a \<Rightarrow>
     (case privateKeyToAccount w key of
        Inl _ \<Rightarrow> (settle_aborted (pp_network pp), [])
      | Inr account \<Rightarrow>
     (case BigInt (auth_value a) of None \<Rightarrow> (settle_aborted (pp_network pp), []) | Some v \<Rightarrow>
     (case BigInt (validAfter a) of None \<Rightarrow> (settle_aborted (pp_network pp), []) | Some va \<Rightarrow>
     (case BigInt (validBefore a) of None \<Rightarrow> (settle_aborted (pp_network pp), []) | Some vb \<Rightarrow>
     (let msg = typed_message a v va vb;
          wr = TransferWithAuthorization cid account msg signature in
      case writeContract w (rpcUrl fac) cid account msg signature of
        Inl _ \<Rightarrow> (settle_aborted (pp_network pp), [wr])
      | Inr hash \<Rightarrow>
     (case waitForTransactionReceipt w (rpcUrl fac) hash of
        Inl _ \<Rightarrow> (settle_aborted (pp_network pp), [wr])
      | Inr receipt_success \<Rightarrow>
      if receipt_success
      then (\<lparr>success = True, transaction = Some hash, sr_network = pp_network pp,
             errorReason = None, sr_payer = Some (auth_from a)\<rparr>, [wr])
      else (\<lparr>success = False, transaction = Some hash, sr_network = pp_network pp,
             errorReason = Some settlement_failed, sr_payer = Some (auth_from a)\<rparr>,
            [wr]))))))))))))"

definition Base_getSignerAddress :: "BaseFacilitator \<Rightarrow> EvmWorld \<Rightarrow> fault + string option" where
  "Base_getSignerAddress fac w =
     (case privateKey fac of
        None \<Rightarrow> Inr None
      | Some key \<Rightarrow> (case privateKeyToAccount w key of Inl e \<Rightarrow> Inl e | Inr addr \<Rightarrow> Inr (Some addr)))"

section \<open>The Signed-Transaction backend (solana/index.ts)\<close>

text \<open>
  A decoded transaction is known to the facilitator only through the members it reads:
  the static account keys of a versioned transaction, the fee payer of a legacy one.
  \<open>vtx_body\<close> and \<open>ltx_body\<close> stand for everything else in the object. The two decoders
  are applied to \<^verbatim>\<open>Buffer.from(txBase64, 'base64')\<close>, a function of the string, so the
  model hands them the string. A call that goes through \<^verbatim>\<open>this.connection\<close> takes the
  RPC endpoint of the connection first. \<open>getAccount\<close> answers with the \<^verbatim>\<open>amount\<close> of the
  token account.
\<close>

record VersionedTx =
  staticAccountKeys :: "string list"
  vtx_body :: string

record LegacyTx =
  feePayer :: "string option"
  ltx_body :: string

record SolanaWorld =
  VersionedTransaction_deserialize :: "string \<Rightarrow> fault + VersionedTx"
  Transaction_from :: "string \<Rightarrow> fault + LegacyTx"
  getAssociatedTokenAddress :: "string \<Rightarrow> string \<Rightarrow> fault + string"
  getAccount :: "string \<Rightarrow> string \<Rightarrow> fault + int"
  sendTransaction :: "string \<Rightarrow> VersionedTx \<Rightarrow> fault + string"
  sendAndConfirmTransaction :: "string \<Rightarrow> LegacyTx \<Rightarrow> string list \<Rightarrow> fault + string"
  confirmTransaction :: "string \<Rightarrow> string \<Rightarrow> fault + string option"
  keypairFromBase58 :: "string \<Rightarrow> fault + string"
  keypairFromJson :: "string \<Rightarrow> fault + string"

text \<open>
  What settlement hands over for sending: a versioned transaction as decoded, given to
  \<^verbatim>\<open>sendTransaction\<close>, or a legacy transaction together with the signers given to
  \<^verbatim>\<open>sendAndConfirmTransaction\<close>, which signs the transaction with them before it sends
  it. Either call may throw, before or after the transaction has reached the network.
\<close>

datatype SolanaWrite =
    SendVersioned VersionedTx
  | SendAndConfirmLegacy LegacyTx "string list"

text \<open>
  \<^verbatim>\<open>USDC_MINTS[network]\<close> is a property read on a plain object: it finds the four keys
  of the literal, and also the members that every object inherits from
  \<^verbatim>\<open>Object.prototype\<close>, which are functions or objects and so truthy, but no public keys.
  An absent network reads the key \<^verbatim>\<open>undefined\<close>.
\<close>

datatype MintEntry = Mint string | InheritedMember | NoMember

definition object_prototype_keys :: "string list" where
  "object_prototype_keys =
     [''constructor'', ''__defineGetter__'', ''__defineSetter__'', ''hasOwnProperty'',
      ''__lookupGetter__'', ''__lookupSetter__'', ''isPrototypeOf'', ''propertyIsEnumerable'',
      ''toString'', ''valueOf'', ''__proto__'', ''toLocaleString'']"

definition USDC_MINTS :: "string option \<Rightarrow> MintEntry" where
  "USDC_MINTS network =
     (let key = (case network of None \<Rightarrow> ''undefined'' | Some n \<Rightarrow> n)
      in case map_of
          [(''solana'', ''EPjFWdd5AufqSSqeM2qN1xzybapC8G4wEGGkZwyTDt1v''),
           (''solana-devnet'', ''4zMMC9srt5Ri5X14GAgXhaHii3GnPAEERYPJgZJDncDU''),
           (''solana:5eykt4UsFv8P8NJdTREpY1vzqKqZKvdp'',
              ''EPjFWdd5AufqSSqeM2qN1xzybapC8G4wEGGkZwyTDt1v''),
           (''solana:EtWTRABZaYq6iMfeYKouRu166VU2xqa1'',
              ''4zMMC9srt5Ri5X14GAgXhaHii3GnPAEERYPJgZJDncDU'')] key of
           Some mint \<Rightarrow> Mint mint
         | None \<Rightarrow> if key \<in> set object_prototype_keys then InheritedMember else NoMember)"

text \<open>A keypair is identified by its public key in base58.\<close>

record SolanaFacilitator =
  connection :: string
  keypair :: "string option"

definition SolanaFacilitator_new ::
  "SolanaWorld \<Rightarrow> string \<Rightarrow> string option \<Rightarrow> SolanaFacilitator" where
  "SolanaFacilitator_new w url key =
     \<lparr>connection = url,
      keypair =
        (case key of
           None \<Rightarrow> None
         | Some k \<Rightarrow>
             if k = [] then None
             else (case keypairFromBase58 w k of
                     Inr kp \<Rightarrow> Some kp
                   | Inl _ \<Rightarrow> (case keypairFromJson w k of Inr kp \<Rightarrow> Some kp | Inl _ \<Rightarrow> None)))\<rparr>"

text \<open>
  The decoding at the head of \<^verbatim>\<open>verify\<close>: the inner \<^verbatim>\<open>try\<close> covers the versioned decoder
  and the read of the first static account key; its \<^verbatim>\<open>catch\<close> runs the legacy decoder
  unguarded, so a throw there leaves the function through the outer \<^verbatim>\<open>catch\<close>. The payer
  is the base58 print of a key that a decoder produced, so \<^verbatim>\<open>new PublicKey(payer)\<close> reads it
  back without a throw and is not modelled as a step of its own. An inherited member in
  the place of the mint passes the test \<^verbatim>\<open>!usdcMint\<close>, and \<^verbatim>\<open>getAssociatedTokenAddress\<close>
  throws on it, as it is no public key.
\<close>

definition legacy_payer :: "SolanaWorld \<Rightarrow> string \<Rightarrow> fault + string" where
  "legacy_payer w tx =
     (case Transaction_from w tx of
        Inl e \<Rightarrow> Inl e
      | Inr ltx \<Rightarrow> Inr (case feePayer ltx of None \<Rightarrow> [] | Some k \<Rightarrow> k))"

definition decode_payer :: "SolanaWorld \<Rightarrow> string \<Rightarrow> fault + string" where
  "decode_payer w tx =
     (case VersionedTransaction_deserialize w tx of
        Inl _ \<Rightarrow> legacy_payer w tx
      | Inr vtx \<Rightarrow> (case staticAccountKeys vtx of [] \<Rightarrow> legacy_payer w tx | k # _ \<Rightarrow> Inr k))"

definition Solana_verify_try ::
  "SolanaFacilitator \<Rightarrow> SolanaWorld \<Rightarrow> PaymentPayload \<Rightarrow> PaymentRequirements
     \<Rightarrow> fault + VerifyResponse" where
  "Solana_verify_try fac w pp req =
     (case payload pp of
        EvmData _ _ \<Rightarrow> Inl TypeError
      | SolanaData txBase64 \<Rightarrow>
     (case decode_payer w txBase64 of
        Inl e \<Rightarrow> Inl e
      | Inr p \<Rightarrow>
      if p = [] then Inr \<lparr>isValid = False, invalidReason = Some invalid_payload, payer = None\<rparr>
      else
     (case USDC_MINTS (pp_network pp) of
        NoMember \<Rightarrow> Inr (invalid unsupported_network p)
      | InheritedMember \<Rightarrow> Inl TypeError
      | Mint usdcMint \<Rightarrow>
     (case getAssociatedTokenAddress w usdcMint p of
        Inl e \<Rightarrow> Inl e
      | Inr payerAta \<Rightarrow>
     (case getAccount w (connection fac) payerAta of
        Inl _ \<Rightarrow> Inr (invalid insufficient_funds p)
      | Inr amount \<Rightarrow>
     (case BigInt (maxAmountRequired req) of
        None \<Rightarrow> Inr (invalid insufficient_funds p)
      | Some requiredAmount \<Rightarrow>
      if amount < requiredAmount then Inr (invalid insufficient_funds p)
      else Inr (valid p)))))))"

definition Solana_verify ::
  "SolanaFacilitator \<Rightarrow> SolanaWorld \<Rightarrow> PaymentPayload \<Rightarrow> PaymentRequirements
     \<Rightarrow> VerifyResponse" where
  "Solana_verify fac w pp req =
     (case Solana_verify_try fac w pp req of
        Inl _ \<Rightarrow> verify_unexpected
      | Inr r \<Rightarrow> r)"

text \<open>
  The broadcast inside \<^verbatim>\<open>settle\<close>: the inner \<^verbatim>\<open>try\<close> covers the versioned decoder and
  \<^verbatim>\<open>sendTransaction\<close>; its \<^verbatim>\<open>catch\<close> decodes the legacy format, fills an absent fee payer
  with the facilitator's key when there is one, and calls \<^verbatim>\<open>sendAndConfirmTransaction\<close>
  with the facilitator's keypair as the only signer, or with no signer.
\<close>

definition legacy_broadcast ::
  "SolanaFacilitator \<Rightarrow> SolanaWorld \<Rightarrow> string \<Rightarrow> SolanaWrite list
     \<Rightarrow> (fault + string) \<times> SolanaWrite list" where
  "legacy_broadcast fac w tx sent =
     (case Transaction_from w tx of
        Inl e \<Rightarrow> (Inl e, sent)
      | Inr legacyTx \<Rightarrow>
     (let tx' = (if keypair fac \<noteq> None \<and> feePayer legacyTx = None
                 then legacyTx\<lparr>feePayer := keypair fac\<rparr> else legacyTx);
          signers = (case keypair fac of None \<Rightarrow> [] | Some k \<Rightarrow> [k])
      in (sendAndConfirmTransaction w (connection fac) tx' signers, sent @ [SendAndConfirmLegacy tx' signers])))"

definition broadcast ::
  "SolanaFacilitator \<Rightarrow> SolanaWorld \<Rightarrow> string \<Rightarrow> (fault + string) \<times> SolanaWrite list" where
  "broadcast fac w tx =
     (case VersionedTransaction_deserialize w tx of
        Inl _ \<Rightarrow> legacy_broadcast fac w tx []
      | Inr versionedTx \<Rightarrow>
     (case sendTransaction w (connection fac) versionedTx of
        Inl _ \<Rightarrow> legacy_broadcast fac w tx [SendVersioned versionedTx]
      | Inr s \<Rightarrow> (Inr s, [SendVersioned versionedTx])))"

definition Solana_settle ::
  "SolanaFacilitator \<Rightarrow> SolanaWorld \<Rightarrow> PaymentPayload \<Rightarrow> PaymentRequirements
     \<Rightarrow> SettleResponse \<times> SolanaWrite list" where
  "Solana_settle fac w pp req =
     (let verification = Solana_verify fac w pp req in
      if \<not> isValid verification then (settle_rejected verification (pp_network pp), [])
      else
     (case payload pp of
        EvmData _ _ \<Rightarrow> (settle_aborted (pp_network pp), [])
      | SolanaData txBase64 \<Rightarrow>
     (case broadcast fac w txBase64 of
        (Inl _, writes) \<Rightarrow> (settle_aborted (pp_network pp), writes)
      | (Inr signature, writes) \<Rightarrow>
     (case confirmTransaction w (connection fac) signature of
        Inl _ \<Rightarrow> (settle_aborted (pp_network pp), writes)
      | Inr err \<Rightarrow>
      if err \<noteq> None
      then (\<lparr>success = False, transaction = Some signature, sr_network = pp_network pp,
             errorReason = Some settlement_failed, sr_payer = payer verification\<rparr>, writes)
      else (\<lparr>success = True, transaction = Some signature, sr_network = pp_network pp,
             errorReason = None, sr_payer = payer verification\<rparr>, writes)))))"

definition Solana_getSignerAddress :: "SolanaFacilitator \<Rightarrow> string option" where
  "Solana_getSignerAddress fac = keypair fac"

section \<open>The Discovery Catalog (discovery/index.ts)\<close>

text \<open>
  The registry is a JavaScript \<^verbatim>\<open>Map\<close>, which iterates in insertion order: an association
  list, extended at the end, whose entries are updated in place. \<open>lastUpdated\<close> is the
  ISO-8601 string that \<^verbatim>\<open>toISOString\<close> prints for the clock; \<^verbatim>\<open>new Date(s).getTime()\<close>
  reads the same number of milliseconds back, so the model stores the number. The
  protocol version \<^verbatim>\<open>x402Version\<close> is an integer.
\<close>

record Accept =
  acc_scheme :: string
  acc_network :: string
  amount :: string
  acc_asset :: string
  acc_payTo :: string

record Metadata =
  md_description :: "string option"
  md_input :: "json option"
  inputSchema :: "json option"
  md_output :: "json option"
  outputSchema :: "json option"

record DiscoveredResource =
  dr_resource :: string
  dr_type :: string
  dr_x402Version :: int
  accepts :: "Accept list"
  lastUpdated :: int
  metadata :: "Metadata option"

type_synonym Registry = "(string \<times> DiscoveredResource) list"

definition extractDiscoveryInfo ::
  "int \<Rightarrow> int \<Rightarrow> PaymentRequirements \<Rightarrow> DiscoveredResource option" where
  "extractDiscoveryInfo clock x402Version req =
     (case bazaar req of
        None \<Rightarrow> None
      | Some bazaarExt \<Rightarrow>
          Some \<lparr>dr_resource = resource req,
                dr_type = ''http'',
                dr_x402Version = x402Version,
                accepts = [\<lparr>acc_scheme = scheme req, acc_network = pr_network req,
                            amount = maxAmountRequired req, acc_asset = asset req,
                            acc_payTo = payTo req\<rparr>],
                lastUpdated = clock,
                metadata =
                  (if info bazaarExt \<noteq> None \<or> description req \<noteq> []
                   then Some \<lparr>md_description =
                                 (if description req \<noteq> [] then Some (description req) else None),
                               md_input =
                                 (case info bazaarExt of None \<Rightarrow> None | Some i \<Rightarrow> info_input i),
                               inputSchema = None,
                               md_output =
                                 (case info bazaarExt of
                                    None \<Rightarrow> None
                                  | Some i \<Rightarrow>
                                      (case info_output i of None \<Rightarrow> None | Some out \<Rightarrow> example out)),
                               outputSchema = schema bazaarExt\<rparr>
                   else None)\<rparr>)"

text \<open>The key of the template string \<^verbatim>\<open>`${a.network}:${a.asset}`\<close>.\<close>

definition accept_key :: "Accept \<Rightarrow> string" where
  "accept_key a = acc_network a @ '':'' @ acc_asset a"

text \<open>The object spread \<^verbatim>\<open>{ ...existing.metadata, ...resource.metadata }\<close>.\<close>

definition spread :: "Metadata option \<Rightarrow> Metadata \<Rightarrow> Metadata" where
  "spread old new =
     (let pick = (\<lambda>f. case f new of
                         Some v \<Rightarrow> Some v
                       | None \<Rightarrow> (case old of None \<Rightarrow> None | Some m \<Rightarrow> f m))
      in \<lparr>md_description = pick md_description, md_input = pick md_input,
          inputSchema = pick inputSchema, md_output = pick md_output,
          outputSchema = pick outputSchema\<rparr>)"

text \<open>
  The branch of \<^verbatim>\<open>registerResource\<close> for an existing entry. The set of existing keys is
  computed once, before the loop over the incoming \<^verbatim>\<open>accepts\<close>.
\<close>

definition merge_resource :: "DiscoveredResource \<Rightarrow> DiscoveredResource \<Rightarrow> DiscoveredResource" where
  "merge_resource existing res =
     (let existingNetworks = set (map accept_key (accepts existing))
      in existing
           \<lparr>accepts := accepts existing @ filter (\<lambda>a. accept_key a \<notin> existingNetworks) (accepts res),
            lastUpdated := lastUpdated res,
            dr_x402Version := max (dr_x402Version existing) (dr_x402Version res),
            metadata := (case metadata res of
                           None \<Rightarrow> metadata existing
                         | Some m \<Rightarrow> Some (spread (metadata existing) m))\<rparr>)"

definition registerResource :: "Registry \<Rightarrow> DiscoveredResource \<Rightarrow> Registry" where
  "registerResource reg res =
     (case map_of reg (dr_resource res) of
        Some existing \<Rightarrow>
          map (\<lambda>(k, v). if k = dr_resource res then (k, merge_resource v res) else (k, v)) reg
      | None \<Rightarrow> reg @ [(dr_resource res, res)])"

definition catalogFromPayment :: "Registry \<Rightarrow> int \<Rightarrow> int \<Rightarrow> PaymentRequirements \<Rightarrow> Registry" where
  "catalogFromPayment reg clock x402Version req =
     (case extractDiscoveryInfo clock x402Version req of
        None \<Rightarrow> reg
      | Some res \<Rightarrow> registerResource reg res)"

definition removeResource :: "Registry \<Rightarrow> string \<Rightarrow> Registry" where
  "removeResource reg resourceUrl = filter (\<lambda>(k, v). k \<noteq> resourceUrl) reg"

definition clearRegistry :: "Registry \<Rightarrow> Registry" where
  "clearRegistry reg = []"

record DiscoveryQueryParams =
  q_type :: "string option"
  q_limit :: "int option"
  q_offset :: "int option"

text \<open>
  The limit and the offset of a listing are JavaScript numbers. \<open>listResources\<close> is the
  function on integers; the route passes it the results of \<^verbatim>\<open>parseInt\<close>, which may also
  be infinite, so the response is given for either type of number.
\<close>

record 'n Pagination =
  p_limit :: 'n
  p_offset :: 'n
  total :: nat

record 'n DiscoveryListResponse =
  l_x402Version :: int
  items :: "DiscoveredResource list"
  pagination :: "'n Pagination"

text \<open>
  \<^verbatim>\<open>listResources\<close>: the defaults of the destructuring apply to absent members only; the
  filter is skipped for a falsy (empty) type; \<^verbatim>\<open>Array.prototype.sort\<close> is stable, and so
  is \<open>sort_key\<close>, here on the negated time stamp for the descending order.
\<close>

definition listResources :: "Registry \<Rightarrow> DiscoveryQueryParams \<Rightarrow> int DiscoveryListResponse" where
  "listResources reg params =
     (let type = (case q_type params of None \<Rightarrow> ''http'' | Some t \<Rightarrow> t);
          limit = (case q_limit params of None \<Rightarrow> 20 | Some l \<Rightarrow> l);
          offset = (case q_offset params of None \<Rightarrow> 0 | Some k \<Rightarrow> k);
          all_items = map snd reg;
          filtered = (if type \<noteq> [] then filter (\<lambda>r. dr_type r = type) all_items else all_items);
          sorted_items = sort_key (\<lambda>r. - lastUpdated r) filtered
      in \<lparr>l_x402Version = 2,
          items = js_slice sorted_items offset (offset + limit),
          pagination = \<lparr>p_limit = limit, p_offset = offset, total = length sorted_items\<rparr>\<rparr>)"

text \<open>
  The same function on the numbers that the route passes, all three members present.
\<close>

definition listResources_number ::
  "Registry \<Rightarrow> string \<Rightarrow> number \<Rightarrow> number \<Rightarrow> number DiscoveryListResponse" where
  "listResources_number reg type limit offset =
     (let all_items = map snd reg;
          filtered = (if type \<noteq> [] then filter (\<lambda>r. dr_type r = type) all_items else all_items);
          sorted_items = sort_key (\<lambda>r. - lastUpdated r) filtered
      in \<lparr>l_x402Version = 2,
          items = js_slice_number sorted_items offset (js_add offset limit),
          pagination = \<lparr>p_limit = limit, p_offset = offset, total = length sorted_items\<rparr>\<rparr>)"

text \<open>
  The route \<^verbatim>\<open>GET /discovery/resources\<close>: an absent or empty \<^verbatim>\<open>type\<close> becomes \<^verbatim>\<open>'http'\<close>; a
  limit that does not parse, or parses to zero, becomes 20; an offset that does not parse
  becomes 0. \<^verbatim>\<open>parseInt\<close> of an absent query is \<^verbatim>\<open>NaN\<close>.
\<close>

definition discovery_route ::
  "Registry \<Rightarrow> string option \<Rightarrow> string option \<Rightarrow> string option
     \<Rightarrow> number DiscoveryListResponse" where
  "discovery_route reg type_q limit_q offset_q =
     listResources_number reg
       (case type_q of None \<Rightarrow> ''http'' | Some t \<Rightarrow> if t = [] then ''http'' else t)
       (or_number (case limit_q of None \<Rightarrow> NaN | Some l \<Rightarrow> parseInt l) (Finite 20))
       (or_number (case offset_q of None \<Rightarrow> NaN | Some k \<Rightarrow> parseInt k) (Finite 0))"

section \<open>The orchestrator (index.ts)\<close>

definition isEvmNetwork :: "string \<Rightarrow> bool" where
  "isEvmNetwork network = (str_includes network ''base'' \<or> startsWith network ''eip155:'')"

definition isSolanaNetwork :: "string \<Rightarrow> bool" where
  "isSolanaNetwork network = str_includes network ''solana''"

text \<open>
  The branch that both routes take on the network identifier: the account-authorization
  backend is tried first, then the signed-transaction backend.
\<close>

datatype Backend = EvmBackend | SolanaBackend | NoBackend

definition resolve :: "string \<Rightarrow> Backend" where
  "resolve network =
     (if isEvmNetwork network then EvmBackend
      else if isSolanaNetwork network then SolanaBackend
      else NoBackend)"

record World =
  clock_ms :: int
  evm :: EvmWorld
  sol :: SolanaWorld

record Facilitators =
  baseFacilitator :: BaseFacilitator
  solanaFacilitator :: SolanaFacilitator

record Request =
  x402Version :: int
  paymentPayload :: "PaymentPayload option"
  paymentRequirements :: "PaymentRequirements option"

text \<open>
  \<^verbatim>\<open>a || b || c\<close> on the three places where a network identifier may stand; an absent or
  empty string is falsy. The key test of the settle route reads \<^verbatim>\<open>config.basePrivateKey\<close>,
  the string the constructor turned into the facilitator's \<open>privateKey\<close>.
\<close>

definition or_else :: "string option \<Rightarrow> string \<Rightarrow> string" where
  "or_else x d = (case x of None \<Rightarrow> d | Some s \<Rightarrow> if s = [] then d else s)"

definition request_network :: "PaymentPayload \<Rightarrow> PaymentRequirements \<Rightarrow> string" where
  "request_network pp req =
     or_else (pp_network pp) (or_else (accepted_network pp) (pr_network req))"

text \<open>
  \<^verbatim>\<open>POST /verify\<close>: the HTTP status, the response body and the registry after the request.
  Neither backend throws and cataloging does not throw either, so the \<^verbatim>\<open>catch\<close> of the route
  (status 500) is not reached for a body of this shape.
\<close>

definition verify_route ::
  "Facilitators \<Rightarrow> World \<Rightarrow> Registry \<Rightarrow> Request \<Rightarrow> nat \<times> VerifyResponse \<times> Registry" where
  "verify_route facs w reg body =
     (case (paymentPayload body, paymentRequirements body) of
        (Some pp, Some req) \<Rightarrow>
          (let network = request_network pp req in
           if network = []
           then (400, \<lparr>isValid = False, invalidReason = Some invalid_payload, payer = None\<rparr>, reg)
           else
             (let response =
                    (case resolve network of
                       EvmBackend \<Rightarrow> Base_verify (baseFacilitator facs) (evm w) (clock_ms w) pp req
                     | SolanaBackend \<Rightarrow> Solana_verify (solanaFacilitator facs) (sol w) pp req
                     | NoBackend \<Rightarrow>
                         \<lparr>isValid = False, invalidReason = Some unsupported_network,
                          payer = None\<rparr>)
              in if isValid response
                 then (200, response, catalogFromPayment reg (clock_ms w) (x402Version body) req)
                 else (400, response, reg)))
      | _ \<Rightarrow> (400, \<lparr>isValid = False, invalidReason = Some invalid_payload, payer = None\<rparr>, reg))"

text \<open>
  \<^verbatim>\<open>POST /settle\<close>: the HTTP status, the response body and the ledger writes attempted on
  either chain. The route never touches the registry.
\<close>

datatype Write = OnEvm EvmWrite | OnSolana SolanaWrite

definition settle_route :: "Facilitators \<Rightarrow> World \<Rightarrow> Request \<Rightarrow> nat \<times> SettleResponse \<times> Write list" where
  "settle_route facs w body =
     (case (paymentPayload body, paymentRequirements body) of
        (Some pp, Some req) \<Rightarrow>
          (let network = request_network pp req in
           if network = []
           then (400, \<lparr>success = False, transaction = None, sr_network = None,
                       errorReason = Some invalid_payload, sr_payer = None\<rparr>, [])
           else
             (case resolve network of
                EvmBackend \<Rightarrow>
                  if privateKey (baseFacilitator facs) = None
                  then (503, settle_aborted (Some network), [])
                  else (let (response, writes) =
                              Base_settle (baseFacilitator facs) (evm w) (clock_ms w) pp req
                        in (if success response then 200 else 400, response, map OnEvm writes))
              | SolanaBackend \<Rightarrow>
                  (let (response, writes) = Solana_settle (solanaFacilitator facs) (sol w) pp req
                   in (if success response then 200 else 400, response, map OnSolana writes))
              | NoBackend \<Rightarrow>
                  (400, \<lparr>success = False, transaction = None, sr_network = Some network,
                         errorReason = Some unsupported_network, sr_payer = None\<rparr>, [])))
      | _ \<Rightarrow> (400, \<lparr>success = False, transaction = None, sr_network = None,
                   errorReason = Some invalid_payload, sr_payer = None\<rparr>, []))"

section \<open>The claims in the words of the specification\<close>

text \<open>
  The six conditions of the ordered verification, as the specification words them.
  \<open>t0\<close> and \<open>t1\<close> are the integers that \<^verbatim>\<open>validAfter\<close> and \<^verbatim>\<open>validBefore\<close> denote; two
  recipients are equal up to letter case when the runtime lowers them to the same string.
\<close>

definition timing_ok :: "int \<Rightarrow> int \<Rightarrow> int \<Rightarrow> bool" where
  "timing_ok now t0 t1 = (t0 \<le> now \<and> now \<le> t1)"

definition amount_ok :: "EvmAuthorization \<Rightarrow> PaymentRequirements \<Rightarrow> bool" where
  "amount_ok a req = (auth_value a = maxAmountRequired req)"

definition recipient_ok :: "EvmWorld \<Rightarrow> EvmAuthorization \<Rightarrow> PaymentRequirements \<Rightarrow> bool" where
  "recipient_ok w a req =
     (toLowerCase (unicodeLowerCase w) (auth_to a) = toLowerCase (unicodeLowerCase w) (payTo req))"

text \<open>
  A request that the account-authorization backend can read: a supported network
  identifier, a payload of the authorization shape, and a validity window in which
  \<^verbatim>\<open>parseInt\<close> reads two finite numbers.
\<close>

definition readable :: "PaymentPayload \<Rightarrow> nat \<Rightarrow> string \<Rightarrow> EvmAuthorization \<Rightarrow> int \<Rightarrow> int \<Rightarrow> bool" where
  "readable pp cid sg a t0 t1 =
     (getChainId (pp_network pp) = Inr cid \<and> payload pp = EvmData sg a \<and>
      parseInt (validAfter a) = Finite t0 \<and> parseInt (validBefore a) = Finite t1)"

definition converts :: "EvmAuthorization \<Rightarrow> int \<Rightarrow> int \<Rightarrow> int \<Rightarrow> bool" where
  "converts a v va vb =
     (BigInt (auth_value a) = Some v \<and> BigInt (validAfter a) = Some va \<and>
      BigInt (validBefore a) = Some vb)"

text \<open>
  A decimal-string integer, as the specification types \<^verbatim>\<open>value\<close>, \<^verbatim>\<open>validAfter\<close> and
  \<^verbatim>\<open>validBefore\<close>: one or more decimal digits.
\<close>

definition is_decimal :: "string \<Rightarrow> bool" where
  "is_decimal s = (s \<noteq> [] \<and> list_all (\<lambda>c. c \<in> set ''0123456789'') s)"

section \<open>Example requests and worlds\<close>

definition ex_auth :: EvmAuthorization where
  "ex_auth =
     \<lparr>auth_from = ''0xPayer'', auth_to = ''0xAbCd'', auth_value = ''10000'',
      validAfter = ''0'', validBefore = ''2000000000'', nonce = ''0x01''\<rparr>"

definition ex_req :: PaymentRequirements where
  "ex_req =
     \<lparr>scheme = ''exact'', pr_network = ''base'', maxAmountRequired = ''10000'',
      resource = ''https://api.example.com/data'', description = ''API access'',
      payTo = ''0xabcd'', asset = ''0xUSDC'', bazaar = Some \<lparr>info = None, schema = None\<rparr>\<rparr>"

definition ex_payload :: PaymentPayload where
  "ex_payload =
     \<lparr>pp_network = Some ''base'', accepted_network = None, payload = EvmData ''0xsig'' ex_auth\<rparr>"

definition ex_clock :: int where
  "ex_clock = 1700000000000"

text \<open>
  A chain that answers every call: the signature verdict, the balance and the state of
  the nonce are the three parameters. The strings of the examples are ASCII, so the case
  tables of the runtime are never consulted.
\<close>

definition ex_evm :: "bool \<Rightarrow> int \<Rightarrow> bool \<Rightarrow> EvmWorld" where
  "ex_evm sigok bal used =
     \<lparr>verifyTypedData = (\<lambda>_ _ _. Inr sigok),
      balanceOf = (\<lambda>_ _ _. Inr bal),
      authorizationState = (\<lambda>_ _ _ _. Inr used),
      privateKeyToAccount = (\<lambda>_. Inr ''0xFacilitator''),
      writeContract = (\<lambda>_ _ _ _ _. Inr ''0xhash''),
      waitForTransactionReceipt = (\<lambda>_ _. Inr True),
      unicodeLowerCase = (\<lambda>s. s)\<rparr>"

definition ex_base :: BaseFacilitator where
  "ex_base = BaseFacilitator_new ''https://mainnet.base.org'' (Some ''0xkey'') (Some 8453)"

definition ex_base_nokey :: BaseFacilitator where
  "ex_base_nokey = BaseFacilitator_new ''https://mainnet.base.org'' None None"

definition ex_vtx :: VersionedTx where
  "ex_vtx = \<lparr>staticAccountKeys = [''PayerKey''], vtx_body = ''transfer''\<rparr>"

text \<open>
  A legacy transaction that the facilitator pays for itself: its fee payer and only
  signer is the facilitator's own key.
\<close>

definition ex_ltx :: LegacyTx where
  "ex_ltx = \<lparr>feePayer = Some ''FacilitatorKey'', ltx_body = ''transfer''\<rparr>"

text \<open>
  A Solana cluster that answers every call; the payload decodes in the versioned format
  and every token account holds 50000 units. \<^verbatim>\<open>sendAndConfirmTransaction\<close> signs the
  transaction with the signers it is given before it sends it, as the library does: a
  call with no signer throws (\<^verbatim>\<open>No signers\<close>), and so does a call that leaves the
  signature of a required signer out. On this cluster it sends \<open>ex_ltx\<close> signed by the
  facilitator, and no other transaction.
\<close>

definition ex_sol :: SolanaWorld where
  "ex_sol =
     \<lparr>VersionedTransaction_deserialize = (\<lambda>_. Inr ex_vtx),
      Transaction_from = (\<lambda>_. Inl LibraryError),
      getAssociatedTokenAddress = (\<lambda>mint owner. Inr (owner @ ''/'' @ mint)),
      getAccount = (\<lambda>_ _. Inr 50000),
      sendTransaction = (\<lambda>_ _. Inr ''sig-versioned''),
      sendAndConfirmTransaction =
        (\<lambda>_ tx signers.
           if tx = ex_ltx \<and> signers = [''FacilitatorKey'']
           then Inr ''sig-legacy'' else Inl LibraryError),
      confirmTransaction = (\<lambda>_ _. Inr None),
      keypairFromBase58 = (\<lambda>_. Inr ''FacilitatorKey''),
      keypairFromJson = (\<lambda>_. Inl LibraryError)\<rparr>"

definition ex_sol_payload :: PaymentPayload where
  "ex_sol_payload =
     \<lparr>pp_network = Some ''solana'', accepted_network = None, payload = SolanaData ''AQAB''\<rparr>"

definition ex_solana :: SolanaFacilitator where
  "ex_solana = SolanaFacilitator_new ex_sol ''https://api.mainnet-beta.solana.com'' (Some ''5Kd3'')"

definition ex_solana_nokey :: SolanaFacilitator where
  "ex_solana_nokey = SolanaFacilitator_new ex_sol ''https://api.mainnet-beta.solana.com'' None"


definition ex_world :: World where
  "ex_world = \<lparr>clock_ms = ex_clock, evm = ex_evm True 10000 False, sol = ex_sol\<rparr>"

definition ex_facs :: Facilitators where
  "ex_facs = \<lparr>baseFacilitator = ex_base, solanaFacilitator = ex_solana\<rparr>"

definition ex_body :: Request where
  "ex_body = \<lparr>x402Version = 1, paymentPayload = Some ex_payload, paymentRequirements = Some ex_req\<rparr>"

text \<open>The network identifiers that the route \<^verbatim>\<open>GET /supported\<close> lists.\<close>

definition supported_networks :: "string list" where
  "supported_networks =
     [''base'', ''base-sepolia'', ''eip155:8453'', ''eip155:84532'',
      ''solana'', ''solana-devnet'',
      ''solana:5eykt4UsFv8P8NJdTREpY1vzqKqZKvdp'', ''solana:EtWTRABZaYq6iMfeYKouRu166VU2xqa1'']"

section \<open>Histories of the catalog\<close>

text \<open>
  The operations that change the registry: the cataloging that the verify route
  performs, and the two maintenance functions of the module. \<open>run\<close> applies a history
  to the empty registry of a fresh process.
\<close>

datatype CatalogOp =
    Catalog int int PaymentRequirements
  | Remove string
  | Clear

fun apply_op :: "Registry \<Rightarrow> CatalogOp \<Rightarrow> Registry" where
  "apply_op reg (Catalog clock version req) = catalogFromPayment reg clock version req"
| "apply_op reg (Remove resourceUrl) = removeResource reg resourceUrl"
| "apply_op reg Clear = clearRegistry reg"

definition run :: "CatalogOp list \<Rightarrow> Registry" where
  "run ops = foldl apply_op [] ops"

text \<open>
  The invariant of the specification: one entry per resource URL, and in every entry one
  element of \<open>accepts\<close> per (network, asset) pair.
\<close>

definition accept_pair :: "Accept \<Rightarrow> string \<times> string" where
  "accept_pair a = (acc_network a, acc_asset a)"

definition unique_pairs :: "DiscoveredResource \<Rightarrow> bool" where
  "unique_pairs r = distinct (map accept_pair (accepts r))"

definition catalog_inv :: "Registry \<Rightarrow> bool" where
  "catalog_inv reg = (distinct (map fst reg) \<and> list_all (\<lambda>(k, r). unique_pairs r) reg)"

text \<open>
  What the code maintains entry by entry: the entry is stored under its own URL, the
  joined keys of its \<open>accepts\<close> are distinct, and its type is \<^verbatim>\<open>'http'\<close>.
\<close>

definition unique_keys :: "DiscoveredResource \<Rightarrow> bool" where
  "unique_keys r = distinct (map accept_key (accepts r))"

definition entry_ok :: "string \<Rightarrow> DiscoveredResource \<Rightarrow> bool" where
  "entry_ok k r = (dr_resource r = k \<and> unique_keys r \<and> dr_type r = ''http'')"

definition catalog_ok :: "Registry \<Rightarrow> bool" where
  "catalog_ok reg = (distinct (map fst reg) \<and> list_all (\<lambda>(k, r). entry_ok k r) reg)"

text \<open>
  The listing in the words of the specification: the entries of a type, newest first,
  entries of equal time stamp in the order of the registry.
\<close>

definition matching :: "Registry \<Rightarrow> string \<Rightarrow> DiscoveredResource list" where
  "matching reg t = filter (\<lambda>r. dr_type r = t) (map snd reg)"

definition newest_first :: "DiscoveredResource list \<Rightarrow> DiscoveredResource list \<Rightarrow> bool" where
  "newest_first xs ys =
     (mset ys = mset xs \<and> sorted_wrt (\<lambda>a b. lastUpdated b \<le> lastUpdated a) ys \<and>
      list_all (\<lambda>r. filter (\<lambda>x. lastUpdated x = lastUpdated r) ys
                     = filter (\<lambda>x. lastUpdated x = lastUpdated r) xs) xs)"

text \<open>A history of three resources, cataloged at the times 1000, 3000 and 2000.\<close>

definition ex_history :: "CatalogOp list" where
  "ex_history =
     [Catalog 1000 1 (ex_req\<lparr>resource := ''https://a.example''\<rparr>),
      Catalog 3000 1 (ex_req\<lparr>resource := ''https://b.example''\<rparr>),
      Catalog 2000 1 (ex_req\<lparr>resource := ''https://c.example''\<rparr>)]"

text \<open>The entry that cataloging \<open>ex_req\<close> under another URL leaves at a given time.\<close>

definition ex_entry :: "string \<Rightarrow> int \<Rightarrow> DiscoveredResource" where
  "ex_entry url t =
     \<lparr>dr_resource = url, dr_type = ''http'', dr_x402Version = 1,
      accepts = [\<lparr>acc_scheme = ''exact'', acc_network = ''base'', amount = ''10000'',
                  acc_asset = ''0xUSDC'', acc_payTo = ''0xabcd''\<rparr>],
      lastUpdated = t,
      metadata = Some \<lparr>md_description = Some ''API access'', md_input = None,
                        inputSchema = None, md_output = None, outputSchema = None\<rparr>\<rparr>"

section \<open>Evaluation of the JavaScript primitives\<close>

text \<open>An integer below \<open>2^53\<close> in magnitude is a double.\<close>

lemma to_double_safe: "\<bar>n\<bar> < 2 ^ 53 \<Longrightarrow> to_double n = Finite n"
  by (auto simp: to_double_def round_magnitude_def)

lemmas js_eval = parseInt_def BigInt_def trim_def trimStart_def white_prefix_def white_space_def
  allDigits_def startsWith_def digitVal_def fromDigits_def toLowerCase_def is_ascii_def
  lower_char_def to_double_safe


text \<open>
  On a decimal-string integer the two conversions read the same integer: neither sees
  white space, a sign or a radix prefix, and both read every character as a digit.
  \<^verbatim>\<open>BigInt\<close> keeps the integer and \<^verbatim>\<open>parseInt\<close> gives the double nearest to it.
\<close>

lemma digit_char:
  assumes "c \<in> set ''0123456789''"
  shows "c \<noteq> CHR ''+''" and "c \<noteq> CHR ''-''" and "c \<notin> set ''xXoObB''"
  using assms by auto

lemma digit_not_white:
  assumes "c \<in> set ''0123456789''"
  shows "white_prefix white_space (c # cs) = 0"
    and "white_prefix (map rev white_space) (c # cs) = 0"
proof -
  from assms consider "c = CHR ''0''" | "c = CHR ''1''" | "c = CHR ''2''" | "c = CHR ''3''"
    | "c = CHR ''4''" | "c = CHR ''5''" | "c = CHR ''6''" | "c = CHR ''7''" | "c = CHR ''8''"
    | "c = CHR ''9''"
    by auto
  then show "white_prefix white_space (c # cs) = 0"
    by cases (simp_all add: white_prefix_def white_space_def startsWith_def)
  from assms consider "c = CHR ''0''" | "c = CHR ''1''" | "c = CHR ''2''" | "c = CHR ''3''"
    | "c = CHR ''4''" | "c = CHR ''5''" | "c = CHR ''6''" | "c = CHR ''7''" | "c = CHR ''8''"
    | "c = CHR ''9''"
    by auto
  then show "white_prefix (map rev white_space) (c # cs) = 0"
    by cases (simp_all add: white_prefix_def white_space_def startsWith_def)
qed

lemma digit_value:
  assumes "c \<in> set ''0123456789''"
  shows "\<exists>d. digitVal c = Some d \<and> 0 \<le> d \<and> d < 10"
proof -
  from assms consider "c = CHR ''0''" | "c = CHR ''1''" | "c = CHR ''2''" | "c = CHR ''3''"
    | "c = CHR ''4''" | "c = CHR ''5''" | "c = CHR ''6''" | "c = CHR ''7''" | "c = CHR ''8''"
    | "c = CHR ''9''"
    by auto
  then show ?thesis
    by cases (simp_all add: digitVal_def)
qed

lemma digits_all:
  "list_all (\<lambda>c. c \<in> set ''0123456789'') s \<Longrightarrow>
     length (digitsPrefix 10 s) = length s \<and> list_all (\<lambda>d. 0 \<le> d \<and> d < 10) (digitsPrefix 10 s)"
proof (induction s)
  case Nil
  then show ?case by simp
next
  case (Cons c cs)
  then obtain d where "digitVal c = Some d" "0 \<le> d" "d < 10"
    using digit_value [of c] by auto
  with Cons show ?case by simp
qed

lemma decimal_no_prefix:
  assumes "list_all (\<lambda>c. c \<in> set ''0123456789'') s" and "b \<in> set ''xXoObB''"
  shows "\<not> startsWith s [a, b]"
proof
  assume "startsWith s [a, b]"
  then have "take 2 s = [a, b]"
    by (simp add: startsWith_def numeral_2_eq_2)
  then have "b \<in> set (take 2 s)"
    by simp
  then have "b \<in> set s"
    by (rule in_set_takeD)
  with assms(1) have "b \<in> set ''0123456789''"
    by (simp add: list_all_iff)
  with assms(2) show False
    using digit_char(3) by blast
qed

lemma decimal_trim:
  assumes "is_decimal s"
  shows "trimStart s = s" and "trim s = s"
proof -
  from assms obtain c cs where s: "s = c # cs" and c: "c \<in> set ''0123456789''"
    by (cases s) (simp_all add: is_decimal_def)
  then show front: "trimStart s = s"
    using digit_not_white(1) [OF c, of cs] by (simp add: trimStart_def)
  from assms have "rev s \<noteq> []" "list_all (\<lambda>c. c \<in> set ''0123456789'') (rev s)"
    by (simp_all add: is_decimal_def list_all_iff)
  then obtain d ds where r: "rev s = d # ds" and d: "d \<in> set ''0123456789''"
    by (cases "rev s") simp_all
  have "strip (map rev white_space) (rev s) = rev s"
    unfolding r using digit_not_white(2) [OF d, of ds] by simp
  with front show "trim s = s"
    by (simp add: trim_def)
qed

lemma fromDigits_bound:
  assumes "list_all (\<lambda>d. 0 \<le> d \<and> d < 10) ds" and "0 \<le> (acc::int)"
  shows "0 \<le> foldl (\<lambda>acc d. acc * 10 + d) acc ds \<and>
         foldl (\<lambda>acc d. acc * 10 + d) acc ds < (acc + 1) * 10 ^ length ds"
  using assms
proof (induction ds arbitrary: acc)
  case Nil
  then show ?case by simp
next
  case (Cons d ds)
  then have d: "0 \<le> d" "d < 10" and rest: "list_all (\<lambda>d. 0 \<le> d \<and> d < 10) ds"
    by simp_all
  from d Cons.prems(2) have acc': "0 \<le> acc * 10 + d"
    by simp
  note ih = Cons.IH [OF rest acc']
  from d have "acc * 10 + d + 1 \<le> (acc + 1) * 10"
    by simp
  then have "(acc * 10 + d + 1) * 10 ^ length ds \<le> (acc + 1) * 10 * 10 ^ length ds"
    by (rule mult_right_mono) simp
  also have "\<dots> = (acc + 1) * 10 ^ length (d # ds)"
    by simp
  finally have step: "(acc * 10 + d + 1) * 10 ^ length ds \<le> (acc + 1) * 10 ^ length (d # ds)" .
  from ih have "foldl (\<lambda>acc d. acc * 10 + d) acc (d # ds) < (acc * 10 + d + 1) * 10 ^ length ds"
    by simp
  with step have "foldl (\<lambda>acc d. acc * 10 + d) acc (d # ds) < (acc + 1) * 10 ^ length (d # ds)"
    by linarith
  moreover from ih have "0 \<le> foldl (\<lambda>acc d. acc * 10 + d) acc (d # ds)"
    by simp
  ultimately show ?case
    by blast
qed

lemma decimal_conversions:
  assumes "is_decimal s"
  shows "parseInt s = to_double (fromDigits 10 (digitsPrefix 10 s))"
    and "BigInt s = Some (fromDigits 10 (digitsPrefix 10 s))"
    and "0 \<le> fromDigits 10 (digitsPrefix 10 s)"
    and "fromDigits 10 (digitsPrefix 10 s) < 10 ^ length s"
proof -
  from assms have all: "list_all (\<lambda>c. c \<in> set ''0123456789'') s" and ne: "s \<noteq> []"
    by (simp_all add: is_decimal_def)
  from ne obtain c cs where s: "s = c # cs"
    by (cases s) simp_all
  with all have c: "c \<noteq> CHR ''+''" "c \<noteq> CHR ''-''"
    using digit_char(1,2) [of c] by simp_all
  have len: "length (digitsPrefix 10 s) = length s"
    and range: "list_all (\<lambda>d. 0 \<le> d \<and> d < 10) (digitsPrefix 10 s)"
    using digits_all [OF all] by simp_all
  with ne have ds: "digitsPrefix 10 s \<noteq> []"
    by auto
  have np: "\<not> startsWith s ''0x''" "\<not> startsWith s ''0X''" "\<not> startsWith s ''0o''"
    "\<not> startsWith s ''0O''" "\<not> startsWith s ''0b''" "\<not> startsWith s ''0B''"
    using decimal_no_prefix [OF all] by simp_all
  have neg: "(case s of [] \<Rightarrow> False | c # _ \<Rightarrow> c = CHR ''-'') = False"
    using s c by simp
  have unsigned: "(case s of [] \<Rightarrow> s
      | c # cs \<Rightarrow> if c = CHR ''+'' \<or> c = CHR ''-'' then cs else s) = s"
    using s c by simp
  show "parseInt s = to_double (fromDigits 10 (digitsPrefix 10 s))"
    unfolding parseInt_def Let_def decimal_trim(1) [OF assms] neg unsigned
    using np ds by simp
  have "hd s \<noteq> CHR ''-''" "hd s \<noteq> CHR ''+''"
    using s c by simp_all
  then show "BigInt s = Some (fromDigits 10 (digitsPrefix 10 s))"
    unfolding BigInt_def Let_def decimal_trim(2) [OF assms] allDigits_def
    using np len ne by simp
  show "0 \<le> fromDigits 10 (digitsPrefix 10 s)" "fromDigits 10 (digitsPrefix 10 s) < 10 ^ length s"
    using fromDigits_bound [OF range, of 0] len by (simp_all add: fromDigits_def)
qed

text \<open>A decimal string of at most fifteen digits denotes an integer below \<open>2^53\<close>.\<close>

lemma decimal_safe:
  assumes "is_decimal s" and "length s \<le> 15"
  shows "\<exists>n. parseInt s = Finite n \<and> BigInt s = Some n"
proof -
  let ?n = "fromDigits 10 (digitsPrefix 10 s)"
  have "(10::int) ^ length s \<le> 10 ^ 15"
    using assms(2) by (intro power_increasing) simp_all
  with decimal_conversions(4) [OF assms(1)] have "?n < 2 ^ 53"
    by simp
  with decimal_conversions(3) [OF assms(1)] have "to_double ?n = Finite ?n"
    by (simp add: to_double_safe)
  with decimal_conversions(1,2) [OF assms(1)] show ?thesis
    by simp
qed

section \<open>The ordered checks of the account-authorization backend\<close>

text \<open>
  Each of the three local checks answers on its own; no call to the chain or to the
  signature library is made before all three have passed.
\<close>

lemma verify_expired:
  assumes "readable pp cid sg a t0 t1" and "\<not> timing_ok (clock div 1000) t0 t1"
  shows "Base_verify fac w clock pp req = invalid payment_expired (auth_from a)"
  using assms
  by (auto simp: Base_verify_def Base_verify_try_def readable_def timing_ok_def js_lt_def js_gt_def Let_def)



lemma verify_after_local_checks:
  assumes "readable pp cid sg a t0 t1" and "timing_ok (clock div 1000) t0 t1" and "amount_ok a req" "recipient_ok w a req"
   "converts a v va vb"
  shows "Base_verify_try fac w clock pp req =
    (case verifyTypedData w cid (typed_message a v va vb) sg of
        Inl e \<Rightarrow> Inl e
      | Inr ok \<Rightarrow>
      if \<not> ok then Inr (invalid invalid_signature (auth_from a))
      else
     (case balanceOf w (rpcUrl fac) cid (auth_from a) of
        Inl e \<Rightarrow> Inl e
      | Inr balance \<Rightarrow>
      if balance < v then Inr (invalid insufficient_funds (auth_from a))
      else
     (case authorizationState w (rpcUrl fac) cid (auth_from a) (nonce a) of
        Inl e \<Rightarrow> Inl e
      | Inr nonceUsed \<Rightarrow>
      if nonceUsed then Inr (invalid invalid_payload (auth_from a))
      else Inr (valid (auth_from a)))))"
proof -
  have cid: "cid = 8453 \<or> cid = 84532"
    using assms(1) by (auto simp: readable_def getChainId_def split: if_splits)
  with assms show ?thesis
    by (auto simp: Base_verify_try_def readable_def timing_ok_def amount_ok_def recipient_ok_def converts_def js_lt_def js_gt_def Let_def getChain_def split: sum.splits)
qed

lemma ex_readable: "readable ex_payload 8453 ''0xsig'' ex_auth 0 2000000000"
  by (simp add: readable_def ex_payload_def ex_auth_def getChainId_def js_eval)

lemma ex_converts: "converts ex_auth 10000 0 2000000000"
  by (simp add: converts_def ex_auth_def js_eval)

lemma ex_local: "timing_ok (ex_clock div 1000) 0 2000000000 \<and> amount_ok ex_auth ex_req \<and> recipient_ok w ex_auth ex_req"
  by (simp add: timing_ok_def amount_ok_def recipient_ok_def ex_clock_def ex_auth_def ex_req_def js_eval)

lemma ex_evm_calls:
  "privateKeyToAccount (ex_evm sigok bal used) key = Inr ''0xFacilitator''"
  "writeContract (ex_evm sigok bal used) url cid account msg sg = Inr ''0xhash''"
  "waitForTransactionReceipt (ex_evm sigok bal used) url hash = Inr True"
  by (simp_all add: ex_evm_def)

lemma ex_fields:
  "privateKey ex_base = Some ''0xkey''"
  "pp_network ex_payload = Some ''base''"
  "payload ex_payload = EvmData ''0xsig'' ex_auth"
  "auth_from ex_auth = ''0xPayer''"
  by (simp_all add: ex_base_def BaseFacilitator_new_def ex_payload_def ex_auth_def)

lemma ex_valid:
  "Base_verify ex_base (ex_evm True 10000 False) ex_clock ex_payload ex_req = valid ''0xPayer''"
proof -
  have "Base_verify_try ex_base (ex_evm True 10000 False) ex_clock ex_payload ex_req
          = Inr (valid ''0xPayer'')"
    using verify_after_local_checks [OF ex_readable, where v = 10000 and va = 0
        and vb = 2000000000 and clock = ex_clock and req = ex_req]
      ex_local ex_converts
    by (simp add: ex_evm_def ex_auth_def)
  then show ?thesis
    by (simp add: Base_verify_def)
qed

lemma ex_settled:
  "Base_settle ex_base (ex_evm True 10000 False) ex_clock ex_payload ex_req =
     (\<lparr>success = True, transaction = Some ''0xhash'', sr_network = Some ''base'',
       errorReason = None, sr_payer = Some ''0xPayer''\<rparr>,
      [TransferWithAuthorization 8453 ''0xFacilitator''
         (typed_message ex_auth 10000 0 2000000000) ''0xsig''])"
  using ex_converts
  by (simp add: Base_settle_def ex_valid valid_def ex_fields ex_evm_calls getChainId_def
      getChain_def converts_def)

text \<open>
  The hypotheses of the theorem below hold for every payload of the specification's data
  model: on a supported network, with decimal-string integers in the three numeric
  fields and a validity window of at most fifteen digits (a time in seconds has ten),
  the request is readable and the three integers convert, \<^verbatim>\<open>parseInt\<close> and \<^verbatim>\<open>BigInt\<close>
  reading the same window.
\<close>

lemma decimal_readable:
  assumes "getChainId (pp_network pp) = Inr cid" and "payload pp = EvmData sg a"
    and "is_decimal (auth_value a)"
    and "is_decimal (validAfter a)" and "length (validAfter a) \<le> 15"
    and "is_decimal (validBefore a)" and "length (validBefore a) \<le> 15"
  shows "\<exists>t0 t1 v. readable pp cid sg a t0 t1 \<and> converts a v t0 t1"
proof -
  obtain t0 where "parseInt (validAfter a) = Finite t0" "BigInt (validAfter a) = Some t0"
    using decimal_safe [OF assms(4,5)] by blast
  moreover obtain t1 where "parseInt (validBefore a) = Finite t1" "BigInt (validBefore a) = Some t1"
    using decimal_safe [OF assms(6,7)] by blast
  moreover have "BigInt (auth_value a) = Some (fromDigits 10 (digitsPrefix 10 (auth_value a)))"
    using assms(3) by (rule decimal_conversions(2))
  ultimately show ?thesis
    using assms(1,2) by (auto simp: readable_def converts_def)
qed




section \<open>Settlement runs the verification again\<close>

lemma Base_settle_success_valid:
  "success (fst (Base_settle fac w clock pp req)) \<Longrightarrow> isValid (Base_verify fac w clock pp req)"
  by (auto simp: Base_settle_def settle_aborted_def settle_rejected_def Let_def
      split: option.splits sum.splits PayloadData.splits if_splits)

lemma Base_settle_rejected:
  assumes "privateKey fac = Some key" and "\<not> isValid (Base_verify fac w clock pp req)"
  shows "Base_settle fac w clock pp req
         = (settle_rejected (Base_verify fac w clock pp req) (pp_network pp), [])"
  using assms by (simp add: Base_settle_def)

lemma Solana_settle_success_valid:
  "success (fst (Solana_settle sfac sw pp req)) \<Longrightarrow> isValid (Solana_verify sfac sw pp req)"
  by (auto simp: Solana_settle_def settle_aborted_def settle_rejected_def Let_def
      split: option.splits sum.splits PayloadData.splits if_splits prod.splits)

lemma Solana_settle_rejected:
  assumes "\<not> isValid (Solana_verify sfac sw pp req)"
  shows "Solana_settle sfac sw pp req
         = (settle_rejected (Solana_verify sfac sw pp req) (pp_network pp), [])"
  using assms by (simp add: Solana_settle_def)

lemma ex_expired:
  "Base_verify fac (ex_evm True 10000 False) 2000000001000 ex_payload ex_req
     = invalid payment_expired ''0xPayer''"
  using verify_expired [OF ex_readable, where clock = 2000000001000]
  by (simp add: timing_ok_def ex_auth_def)

lemma ex_sol_poor:
  "Solana_verify ex_solana (ex_sol\<lparr>getAccount := \<lambda>_ _. Inr 9999\<rparr>) ex_sol_payload ex_req
     = invalid insufficient_funds ''PayerKey''"
  by (simp add: Solana_verify_def Solana_verify_try_def decode_payer_def ex_sol_def ex_sol_payload_def
      ex_vtx_def ex_req_def USDC_MINTS_def js_eval)

lemma ex_networks: "pp_network ex_payload = Some ''base''" "pp_network ex_sol_payload = Some ''solana''"
  by (simp_all add: ex_payload_def ex_sol_payload_def)

text \<open>
  Claim C2, as amended. On either backend settle reports \<open>success\<close> only when a
  standalone verify of the same payload, at that moment, is valid. The
  signed-transaction backend verifies first and, when the verification fails, answers
  with the verification's own reason and payer and attempts no ledger write; the
  account-authorization backend does the same once its funding key guard has passed,
  that is, when a key is configured.
\<close>

theorem settle_reverifies:
  "(success (fst (Base_settle fac w clock pp req)) \<longrightarrow> isValid (Base_verify fac w clock pp req)) \<and>
   (privateKey fac \<noteq> None \<and> \<not> isValid (Base_verify fac w clock pp req) \<longrightarrow>
      Base_settle fac w clock pp req =
        (\<lparr>success = False, transaction = None, sr_network = pp_network pp,
          errorReason = invalidReason (Base_verify fac w clock pp req),
          sr_payer = payer (Base_verify fac w clock pp req)\<rparr>, [])) \<and>
   (success (fst (Solana_settle sfac sw pp req)) \<longrightarrow> isValid (Solana_verify sfac sw pp req)) \<and>
   (\<not> isValid (Solana_verify sfac sw pp req) \<longrightarrow>
      Solana_settle sfac sw pp req =
        (\<lparr>success = False, transaction = None, sr_network = pp_network pp,
          errorReason = invalidReason (Solana_verify sfac sw pp req),
          sr_payer = payer (Solana_verify sfac sw pp req)\<rparr>, []))"
proof (intro conjI impI)
  assume "success (fst (Base_settle fac w clock pp req))"
  then show "isValid (Base_verify fac w clock pp req)"
    by (rule Base_settle_success_valid)
next
  assume h: "privateKey fac \<noteq> None \<and> \<not> isValid (Base_verify fac w clock pp req)"
  then obtain key where "privateKey fac = Some key"
    by auto
  with h show "Base_settle fac w clock pp req =
        (\<lparr>success = False, transaction = None, sr_network = pp_network pp,
          errorReason = invalidReason (Base_verify fac w clock pp req),
          sr_payer = payer (Base_verify fac w clock pp req)\<rparr>, [])"
    by (simp add: Base_settle_rejected settle_rejected_def)
next
  assume "success (fst (Solana_settle sfac sw pp req))"
  then show "isValid (Solana_verify sfac sw pp req)"
    by (rule Solana_settle_success_valid)
next
  assume "\<not> isValid (Solana_verify sfac sw pp req)"
  then show "Solana_settle sfac sw pp req =
        (\<lparr>success = False, transaction = None, sr_network = pp_network pp,
          errorReason = invalidReason (Solana_verify sfac sw pp req),
          sr_payer = payer (Solana_verify sfac sw pp req)\<rparr>, [])"
    by (simp add: Solana_settle_rejected settle_rejected_def)
qed

theorem settle_reverifies_witness:
  "success (fst (Base_settle ex_base (ex_evm True 10000 False) ex_clock ex_payload ex_req)) \<and>
   isValid (Base_verify ex_base (ex_evm True 10000 False) ex_clock ex_payload ex_req) \<and>
   Base_settle ex_base (ex_evm True 10000 False) 2000000001000 ex_payload ex_req =
     (\<lparr>success = False, transaction = None, sr_network = Some ''base'',
       errorReason = Some payment_expired, sr_payer = Some ''0xPayer''\<rparr>, []) \<and>
   Solana_settle ex_solana (ex_sol\<lparr>getAccount := \<lambda>_ _. Inr 9999\<rparr>) ex_sol_payload ex_req =
     (\<lparr>success = False, transaction = None, sr_network = Some ''solana'',
       errorReason = Some insufficient_funds, sr_payer = Some ''PayerKey''\<rparr>, [])"
proof -
  have key: "privateKey ex_base \<noteq> None"
    by (simp add: ex_base_def BaseFacilitator_new_def)
  have settled: "success (fst (Base_settle ex_base (ex_evm True 10000 False) ex_clock ex_payload ex_req))"
    by (simp add: ex_settled)
  then have "isValid (Base_verify ex_base (ex_evm True 10000 False) ex_clock ex_payload ex_req)"
    using settle_reverifies [where fac = ex_base and w = "ex_evm True 10000 False"
      and clock = ex_clock and pp = ex_payload and req = ex_req]
    by simp
  moreover note settled
  moreover have "Base_settle ex_base (ex_evm True 10000 False) 2000000001000 ex_payload ex_req =
     (\<lparr>success = False, transaction = None, sr_network = Some ''base'',
       errorReason = Some payment_expired, sr_payer = Some ''0xPayer''\<rparr>, [])"
    using settle_reverifies [where fac = ex_base and w = "ex_evm True 10000 False"
      and clock = 2000000001000 and pp = ex_payload and req = ex_req] key
    by (simp add: ex_expired invalid_def ex_networks)
  moreover have "Solana_settle ex_solana (ex_sol\<lparr>getAccount := \<lambda>_ _. Inr 9999\<rparr>) ex_sol_payload ex_req =
     (\<lparr>success = False, transaction = None, sr_network = Some ''solana'',
       errorReason = Some insufficient_funds, sr_payer = Some ''PayerKey''\<rparr>, [])"
    using settle_reverifies [where sfac = ex_solana and sw = "ex_sol\<lparr>getAccount := \<lambda>_ _. Inr 9999\<rparr>"
      and pp = ex_sol_payload and req = ex_req]
    by (simp add: ex_sol_poor invalid_def ex_networks)
  ultimately show ?thesis
    by simp
qed

text \<open>
  The claim as first stated fails where no funding key is configured: the
  account-authorization backend then answers \<open>settlement_failed\<close> with no payer and
  never runs the verification, whose own reason here would be \<open>payment_expired\<close>.
\<close>

theorem settle_without_key_skips_verify:
  "privateKey ex_base_nokey = None \<and>
   Base_verify ex_base_nokey (ex_evm True 10000 False) 2000000001000 ex_payload ex_req
     = \<lparr>isValid = False, invalidReason = Some payment_expired, payer = Some ''0xPayer''\<rparr> \<and>
   Base_settle ex_base_nokey (ex_evm True 10000 False) 2000000001000 ex_payload ex_req =
     (\<lparr>success = False, transaction = None, sr_network = Some ''base'',
       errorReason = Some settlement_failed, sr_payer = None\<rparr>, [])"
  by (simp add: ex_expired invalid_def Base_settle_def ex_base_nokey_def BaseFacilitator_new_def
      settle_aborted_def ex_networks)

section \<open>The funding key\<close>

lemma Base_verify_ignores_key:
  "Base_verify (fac\<lparr>privateKey := k\<rparr>) w clock pp req = Base_verify fac w clock pp req"
  by (simp add: Base_verify_def Base_verify_try_def
      cong: sum.case_cong PayloadData.case_cong option.case_cong if_cong)

lemma Solana_verify_ignores_key:
  "Solana_verify (sfac\<lparr>keypair := kp\<rparr>) sw pp req = Solana_verify sfac sw pp req"
  by (simp add: Solana_verify_def Solana_verify_try_def
      cong: sum.case_cong PayloadData.case_cong option.case_cong MintEntry.case_cong if_cong)

lemma Base_settle_no_key:
  "privateKey fac = None \<Longrightarrow> Base_settle fac w clock pp req = (settle_aborted (pp_network pp), [])"
  by (simp add: Base_settle_def)

lemma Solana_settle_writes:
  assumes "isValid (Solana_verify sfac sw pp req)" and "payload pp = SolanaData tx"
  shows "snd (Solana_settle sfac sw pp req) = snd (broadcast sfac sw tx)"
proof (cases "broadcast sfac sw tx")
  case (Pair r writes)
  with assms show ?thesis
    by (cases r; cases "confirmTransaction sw (connection sfac) (projr r)")
      (simp_all add: Solana_settle_def Let_def)
qed

lemma broadcast_versioned_head:
  assumes "VersionedTransaction_deserialize sw tx = Inr vtx"
  shows "\<exists>rest. snd (broadcast sfac sw tx) = SendVersioned vtx # rest"
proof (cases "sendTransaction sw (connection sfac) vtx")
  case (Inl e)
  with assms show ?thesis
    by (cases "Transaction_from sw tx") (simp_all add: broadcast_def legacy_broadcast_def Let_def)
next
  case (Inr s)
  with assms show ?thesis
    by (simp add: broadcast_def)
qed

lemma Solana_settle_versioned_head:
  assumes "isValid (Solana_verify sfac sw pp req)" and "payload pp = SolanaData tx"
    and "VersionedTransaction_deserialize sw tx = Inr vtx"
  shows "hd (snd (Solana_settle sfac sw pp req)) = SendVersioned vtx \<and> snd (Solana_settle sfac sw pp req) \<noteq> []"
  using broadcast_versioned_head [OF assms(3), of sfac] Solana_settle_writes [OF assms(1,2)]
  by auto

lemma ex_sol_valid:
  "Solana_verify fac ex_sol ex_sol_payload ex_req = valid ''PayerKey''"
  by (simp add: Solana_verify_def Solana_verify_try_def decode_payer_def ex_sol_def ex_sol_payload_def
      ex_vtx_def ex_req_def USDC_MINTS_def js_eval)

lemma ex_nokey: "privateKey ex_base_nokey = None" "keypair ex_solana_nokey = None"
  by (simp_all add: ex_base_nokey_def BaseFacilitator_new_def ex_solana_nokey_def SolanaFacilitator_new_def)

lemma ex_sol_decodes:
  "payload ex_sol_payload = SolanaData ''AQAB''" "VersionedTransaction_deserialize ex_sol ''AQAB'' = Inr ex_vtx"
  by (simp_all add: ex_sol_payload_def ex_sol_def)

text \<open>
  The key guard of the account-authorization backend: when no funding key is configured,
  settle answers \<open>settlement_failed\<close> whatever the chain would answer to any call, and
  attempts no ledger write. Verification on either family does not depend on the key.
  The signed-transaction backend has no such guard: without a key, settle of a payload
  that verifies and decodes in the versioned format still hands the transaction to the
  network.
\<close>

theorem settle_key_guard:
  "(privateKey fac = None \<longrightarrow>
      Base_settle fac w clock pp req =
        (\<lparr>success = False, transaction = None, sr_network = pp_network pp,
          errorReason = Some settlement_failed, sr_payer = None\<rparr>, [])) \<and>
   Base_verify (fac\<lparr>privateKey := k\<rparr>) w clock pp req = Base_verify fac w clock pp req \<and>
   Solana_verify (sfac\<lparr>keypair := kp\<rparr>) sw pp req = Solana_verify sfac sw pp req \<and>
   (keypair sfac = None \<and> isValid (Solana_verify sfac sw pp req) \<and> payload pp = SolanaData tx \<and>
    VersionedTransaction_deserialize sw tx = Inr vtx \<longrightarrow>
      snd (Solana_settle sfac sw pp req) \<noteq> [] \<and>
      hd (snd (Solana_settle sfac sw pp req)) = SendVersioned vtx)"
proof (intro conjI impI)
  assume "privateKey fac = None"
  then show "Base_settle fac w clock pp req =
        (\<lparr>success = False, transaction = None, sr_network = pp_network pp,
          errorReason = Some settlement_failed, sr_payer = None\<rparr>, [])"
    by (simp add: Base_settle_no_key settle_aborted_def)
next
  show "Base_verify (fac\<lparr>privateKey := k\<rparr>) w clock pp req = Base_verify fac w clock pp req"
    by (rule Base_verify_ignores_key)
next
  show "Solana_verify (sfac\<lparr>keypair := kp\<rparr>) sw pp req = Solana_verify sfac sw pp req"
    by (rule Solana_verify_ignores_key)
next
  assume h: "keypair sfac = None \<and> isValid (Solana_verify sfac sw pp req) \<and> payload pp = SolanaData tx \<and>
    VersionedTransaction_deserialize sw tx = Inr vtx"
  then show "snd (Solana_settle sfac sw pp req) \<noteq> []"
    using Solana_settle_versioned_head [of sfac sw pp req tx vtx] by simp
  from h show "hd (snd (Solana_settle sfac sw pp req)) = SendVersioned vtx"
    using Solana_settle_versioned_head [of sfac sw pp req tx vtx] by simp
qed

theorem settle_key_guard_witness:
  "Base_settle ex_base_nokey (ex_evm True 10000 False) ex_clock ex_payload ex_req =
     (\<lparr>success = False, transaction = None, sr_network = Some ''base'',
       errorReason = Some settlement_failed, sr_payer = None\<rparr>, []) \<and>
   hd (snd (Solana_settle ex_solana_nokey ex_sol ex_sol_payload ex_req)) = SendVersioned ex_vtx"
  using settle_key_guard [where fac = ex_base_nokey and w = "ex_evm True 10000 False"
      and clock = ex_clock and pp = ex_payload and req = ex_req]
    settle_key_guard [where sfac = ex_solana_nokey and sw = ex_sol and pp = ex_sol_payload
      and req = ex_req and tx = "''AQAB''" and vtx = ex_vtx]
  by (simp add: ex_nokey ex_networks ex_sol_valid valid_def ex_sol_decodes)

text \<open>
  Claim C5 at a failing input. With no key configured for the signed-transaction family,
  settle of a payload that verifies reads the ledger, broadcasts the transaction and
  reports \<open>success\<close>, where the claim prescribes \<open>settlement_failed\<close> before any chain
  interaction, as the account-authorization backend answers.
\<close>

theorem Solana_settles_without_key:
  "keypair ex_solana_nokey = None \<and>
   Solana_settle ex_solana_nokey ex_sol ex_sol_payload ex_req =
     (\<lparr>success = True, transaction = Some ''sig-versioned'', sr_network = Some ''solana'',
       errorReason = None, sr_payer = Some ''PayerKey''\<rparr>, [SendVersioned ex_vtx])"
proof -
  have "broadcast ex_solana_nokey ex_sol ''AQAB'' = (Inr ''sig-versioned'', [SendVersioned ex_vtx])"
    by (simp add: broadcast_def ex_sol_def)
  moreover have "confirmTransaction ex_sol (connection ex_solana_nokey) ''sig-versioned'' = Inr None"
    by (simp add: ex_sol_def)
  ultimately show ?thesis
    by (simp add: ex_nokey Solana_settle_def ex_sol_valid valid_def ex_sol_decodes ex_networks)
qed

section \<open>What the signed-transaction backend broadcasts\<close>











section \<open>The reasons of the signed-transaction verification\<close>

text \<open>
  When both decoders throw, the throw of the legacy decoder leaves through the outer
  \<^verbatim>\<open>catch\<close>; when the read of the token account throws, for whatever cause, the inner
  \<^verbatim>\<open>catch\<close> answers \<open>insufficient_funds\<close>. A token account that is read and holds less
  than the required amount is answered \<open>insufficient_funds\<close>.
\<close>

lemma Solana_verify_undecodable:
  assumes "payload pp = SolanaData tx"
    and "VersionedTransaction_deserialize w tx = Inl e" and "Transaction_from w tx = Inl e'"
  shows "Solana_verify fac w pp req = verify_unexpected"
  using assms
  by (simp add: Solana_verify_def Solana_verify_try_def decode_payer_def legacy_payer_def)

lemma Solana_verify_read_fault:
  assumes "payload pp = SolanaData tx" and "decode_payer w tx = Inr p" and "p \<noteq> []"
    and "USDC_MINTS (pp_network pp) = Mint mint"
    and "getAssociatedTokenAddress w mint p = Inr ata"
    and "getAccount w (connection fac) ata = Inl e"
  shows "Solana_verify fac w pp req = invalid insufficient_funds p"
  using assms by (simp add: Solana_verify_def Solana_verify_try_def)

lemma Solana_verify_balance:
  assumes "payload pp = SolanaData tx" and "decode_payer w tx = Inr p" and "p \<noteq> []"
    and "USDC_MINTS (pp_network pp) = Mint mint"
    and "getAssociatedTokenAddress w mint p = Inr ata"
    and "getAccount w (connection fac) ata = Inr held"
    and "BigInt (maxAmountRequired req) = Some required"
  shows "Solana_verify fac w pp req =
     (if held < required then invalid insufficient_funds p else valid p)"
  using assms by (simp add: Solana_verify_def Solana_verify_try_def)

text \<open>
  A network identifier that is no key of the table of mints but a member that every
  object inherits, such as \<^verbatim>\<open>constructor\<close>, is not answered \<open>unsupported_network\<close>: the
  inherited member is taken for the mint and the throw that follows is answered
  \<open>unexpected_error\<close>.
\<close>

lemma Solana_verify_inherited_member:
  assumes "payload pp = SolanaData tx" and "decode_payer w tx = Inr p" and "p \<noteq> []"
    and "USDC_MINTS (pp_network pp) = InheritedMember"
  shows "Solana_verify fac w pp req = verify_unexpected"
  using assms by (simp add: Solana_verify_def Solana_verify_try_def)

lemma ex_inherited_member:
  "USDC_MINTS (Some ''constructor'') = InheritedMember \<and>
   USDC_MINTS (Some ''bitcoin'') = NoMember \<and> USDC_MINTS None = NoMember \<and>
   Solana_verify ex_solana ex_sol (ex_sol_payload\<lparr>pp_network := Some ''constructor''\<rparr>) ex_req
     = verify_unexpected"
proof -
  have m: "USDC_MINTS (Some ''constructor'') = InheritedMember"
    by (simp add: USDC_MINTS_def object_prototype_keys_def)
  have "Solana_verify ex_solana ex_sol (ex_sol_payload\<lparr>pp_network := Some ''constructor''\<rparr>) ex_req
     = verify_unexpected"
    by (rule Solana_verify_inherited_member [where tx = "''AQAB''" and p = "''PayerKey''"])
      (simp_all add: m ex_sol_payload_def ex_sol_def decode_payer_def ex_vtx_def)
  with m show ?thesis
    by (simp add: USDC_MINTS_def object_prototype_keys_def)
qed

text \<open>
  Claim C3 at two failing inputs. A transaction that decodes under neither format is
  answered \<open>unexpected_error\<close>, where the claim prescribes \<open>invalid_payload\<close>; an RPC
  fault during the balance read is answered \<open>insufficient_funds\<close>, where the claim
  prescribes \<open>unexpected_error\<close>.
\<close>

theorem Solana_verify_misreported_faults:
  "Solana_verify ex_solana (ex_sol\<lparr>VersionedTransaction_deserialize := \<lambda>_. Inl LibraryError\<rparr>)
       ex_sol_payload ex_req
     = \<lparr>isValid = False, invalidReason = Some unexpected_error, payer = None\<rparr> \<and>
   Solana_verify ex_solana (ex_sol\<lparr>getAccount := \<lambda>_ _. Inl RpcError\<rparr>) ex_sol_payload ex_req
     = \<lparr>isValid = False, invalidReason = Some insufficient_funds, payer = Some ''PayerKey''\<rparr>"
proof -
  have "Solana_verify ex_solana (ex_sol\<lparr>VersionedTransaction_deserialize := \<lambda>_. Inl LibraryError\<rparr>)
       ex_sol_payload ex_req = verify_unexpected"
    by (rule Solana_verify_undecodable [where tx = "''AQAB''"]) (simp_all add: ex_sol_payload_def ex_sol_def)
  moreover have "Solana_verify ex_solana (ex_sol\<lparr>getAccount := \<lambda>_ _. Inl RpcError\<rparr>) ex_sol_payload ex_req
     = invalid insufficient_funds ''PayerKey''"
    by (rule Solana_verify_read_fault [where tx = "''AQAB''"
          and mint = "''EPjFWdd5AufqSSqeM2qN1xzybapC8G4wEGGkZwyTDt1v''"])
      (simp_all add: ex_sol_payload_def ex_sol_def decode_payer_def ex_vtx_def USDC_MINTS_def)
  ultimately show ?thesis
    by (simp add: verify_unexpected_def invalid_def)
qed

section \<open>Network resolution\<close>

lemma resolve_supported:
  "\<forall>n \<in> set supported_networks. resolve n \<noteq> NoBackend \<and> \<not> (isEvmNetwork n \<and> isSolanaNetwork n)"
  by (simp add: supported_networks_def resolve_def isEvmNetwork_def isSolanaNetwork_def startsWith_def)

lemma resolve_both: "isEvmNetwork n \<Longrightarrow> resolve n = EvmBackend"
  by (simp add: resolve_def)

lemma resolve_neither: "\<not> isEvmNetwork n \<Longrightarrow> \<not> isSolanaNetwork n \<Longrightarrow> resolve n = NoBackend"
  by (simp add: resolve_def)

lemma Base_verify_same_chain:
  assumes "getChainId (pp_network pp) = getChainId (pp_network pp')"
    and "payload pp = payload pp'"
  shows "Base_verify fac w clock pp req = Base_verify fac w clock pp' req"
  using assms by (simp add: Base_verify_def Base_verify_try_def cong: sum.case_cong)

lemma Base_settle_same_chain:
  assumes "getChainId (pp_network pp) = getChainId (pp_network pp')"
    and "payload pp = payload pp'"
  shows "snd (Base_settle fac w clock pp req) = snd (Base_settle fac w clock pp' req)"
    and "success (fst (Base_settle fac w clock pp req)) = success (fst (Base_settle fac w clock pp' req))"
    and "transaction (fst (Base_settle fac w clock pp req)) = transaction (fst (Base_settle fac w clock pp' req))"
proof -
  have v: "Base_verify fac w clock pp req = Base_verify fac w clock pp' req"
    using assms by (rule Base_verify_same_chain)
  show "snd (Base_settle fac w clock pp req) = snd (Base_settle fac w clock pp' req)"
    using assms
    by (simp add: Base_settle_def v settle_aborted_def settle_rejected_def Let_def
        split: option.splits sum.splits PayloadData.splits)
  show "success (fst (Base_settle fac w clock pp req)) = success (fst (Base_settle fac w clock pp' req))"
    using assms
    by (simp add: Base_settle_def v settle_aborted_def settle_rejected_def Let_def
        split: option.splits sum.splits PayloadData.splits)
  show "transaction (fst (Base_settle fac w clock pp req)) = transaction (fst (Base_settle fac w clock pp' req))"
    using assms
    by (simp add: Base_settle_def v settle_aborted_def settle_rejected_def Let_def
        split: option.splits sum.splits PayloadData.splits)
qed

lemma verify_route_unsupported:
  assumes "paymentPayload body = Some pp" and "paymentRequirements body = Some req"
    and "request_network pp req = n" and "n \<noteq> []" and "resolve n = NoBackend"
  shows "verify_route facs w reg body =
     (400, \<lparr>isValid = False, invalidReason = Some unsupported_network, payer = None\<rparr>, reg)"
  using assms by (simp add: verify_route_def)

lemma settle_route_unsupported:
  assumes "paymentPayload body = Some pp" and "paymentRequirements body = Some req"
    and "request_network pp req = n" and "n \<noteq> []" and "resolve n = NoBackend"
  shows "settle_route facs w body =
     (400, \<lparr>success = False, transaction = None, sr_network = Some n,
            errorReason = Some unsupported_network, sr_payer = None\<rparr>, [])"
  using assms by (simp add: settle_route_def)

lemma resolve_backends:
  "resolve ''base'' = EvmBackend" "resolve ''base-sepolia'' = EvmBackend"
  "resolve ''eip155:8453'' = EvmBackend" "resolve ''eip155:84532'' = EvmBackend"
  "resolve ''solana'' = SolanaBackend" "resolve ''solana-devnet'' = SolanaBackend"
  "resolve ''solana:5eykt4UsFv8P8NJdTREpY1vzqKqZKvdp'' = SolanaBackend"
  "resolve ''solana:EtWTRABZaYq6iMfeYKouRu166VU2xqa1'' = SolanaBackend"
  by (simp_all add: resolve_def isEvmNetwork_def isSolanaNetwork_def startsWith_def)

lemma resolve_nonempty: "resolve n \<noteq> NoBackend \<Longrightarrow> n \<noteq> []"
  by (auto simp: resolve_def isEvmNetwork_def isSolanaNetwork_def startsWith_def)

text \<open>The dispatch of the two routes on a well-formed body.\<close>

lemma verify_route_dispatch:
  assumes "paymentPayload body = Some pp" and "paymentRequirements body = Some req"
    and "request_network pp req = n"
  shows "resolve n = EvmBackend \<Longrightarrow>
           fst (snd (verify_route facs w reg body))
             = Base_verify (baseFacilitator facs) (evm w) (clock_ms w) pp req"
    and "resolve n = SolanaBackend \<Longrightarrow>
           fst (snd (verify_route facs w reg body))
             = Solana_verify (solanaFacilitator facs) (sol w) pp req"
proof -
  assume r: "resolve n = EvmBackend"
  then have "n \<noteq> []"
    using resolve_nonempty [of n] by simp
  with assms r show "fst (snd (verify_route facs w reg body))
             = Base_verify (baseFacilitator facs) (evm w) (clock_ms w) pp req"
    by (simp add: verify_route_def Let_def)
next
  assume r: "resolve n = SolanaBackend"
  then have "n \<noteq> []"
    using resolve_nonempty [of n] by simp
  with assms r show "fst (snd (verify_route facs w reg body))
             = Solana_verify (solanaFacilitator facs) (sol w) pp req"
    by (simp add: verify_route_def Let_def)
qed

lemma settle_route_dispatch:
  assumes "paymentPayload body = Some pp" and "paymentRequirements body = Some req"
    and "request_network pp req = n"
  shows "resolve n = EvmBackend \<Longrightarrow> privateKey (baseFacilitator facs) \<noteq> None \<Longrightarrow>
           fst (snd (settle_route facs w body))
             = fst (Base_settle (baseFacilitator facs) (evm w) (clock_ms w) pp req) \<and>
           snd (snd (settle_route facs w body))
             = map OnEvm (snd (Base_settle (baseFacilitator facs) (evm w) (clock_ms w) pp req))"
    and "resolve n = SolanaBackend \<Longrightarrow>
           fst (snd (settle_route facs w body))
             = fst (Solana_settle (solanaFacilitator facs) (sol w) pp req) \<and>
           snd (snd (settle_route facs w body))
             = map OnSolana (snd (Solana_settle (solanaFacilitator facs) (sol w) pp req))"
proof -
  assume r: "resolve n = EvmBackend" and k: "privateKey (baseFacilitator facs) \<noteq> None"
  then have "n \<noteq> []"
    using resolve_nonempty [of n] by simp
  with assms r k show "fst (snd (settle_route facs w body))
             = fst (Base_settle (baseFacilitator facs) (evm w) (clock_ms w) pp req) \<and>
           snd (snd (settle_route facs w body))
             = map OnEvm (snd (Base_settle (baseFacilitator facs) (evm w) (clock_ms w) pp req))"
    by (auto simp: settle_route_def Let_def split: prod.splits)
next
  assume r: "resolve n = SolanaBackend"
  then have "n \<noteq> []"
    using resolve_nonempty [of n] by simp
  with assms r show "fst (snd (settle_route facs w body))
             = fst (Solana_settle (solanaFacilitator facs) (sol w) pp req) \<and>
           snd (snd (settle_route facs w body))
             = map OnSolana (snd (Solana_settle (solanaFacilitator facs) (sol w) pp req))"
    by (simp add: settle_route_def Let_def split: prod.splits)
qed

text \<open>
  Claim C4, as amended. Each of the eight supported identifiers resolves to the backend
  of its own family and matches the pattern of that family only: \<^verbatim>\<open>base\<close>,
  \<^verbatim>\<open>base-sepolia\<close>, \<^verbatim>\<open>eip155:8453\<close> and \<^verbatim>\<open>eip155:84532\<close> to the account-authorization
  backend, the four \<^verbatim>\<open>solana\<close> identifiers to the signed-transaction backend. The
  identifiers \<^verbatim>\<open>base\<close> and \<^verbatim>\<open>eip155:8453\<close> name the chain 8453, and \<^verbatim>\<open>base-sepolia\<close> and
  \<^verbatim>\<open>eip155:84532\<close> the chain 84532; \<^verbatim>\<open>base\<close> and \<^verbatim>\<open>eip155:8453\<close> get the same
  verification and the same ledger writes, signed by the same funding account; the two
  mainnet identifiers of Solana name the same mint. Both routes hand a request whose
  identifier resolves to a backend to the one facilitator of that family, and answer
  with its response. The patterns themselves overlap, and an identifier that matches
  both is resolved to the account-authorization backend, which is tried first. Every
  non-empty identifier that matches neither pattern gets the structured
  \<open>unsupported_network\<close> response from both routes, with the registry untouched and no
  ledger write.
\<close>

theorem network_resolution:
  "resolve ''base'' = EvmBackend \<and> resolve ''eip155:8453'' = EvmBackend \<and>
   resolve ''base-sepolia'' = EvmBackend \<and> resolve ''eip155:84532'' = EvmBackend \<and>
   resolve ''solana'' = SolanaBackend \<and> resolve ''solana-devnet'' = SolanaBackend \<and>
   resolve ''solana:5eykt4UsFv8P8NJdTREpY1vzqKqZKvdp'' = SolanaBackend \<and>
   resolve ''solana:EtWTRABZaYq6iMfeYKouRu166VU2xqa1'' = SolanaBackend \<and>
   getChainId (Some ''base'') = Inr 8453 \<and> getChainId (Some ''eip155:8453'') = Inr 8453 \<and>
   getChainId (Some ''base-sepolia'') = Inr 84532 \<and>
   getChainId (Some ''eip155:84532'') = Inr 84532 \<and>
   getChainId (Some ''base'') = getChainId (Some ''eip155:8453'') \<and>
   USDC_MINTS (Some ''solana'') = Mint ''EPjFWdd5AufqSSqeM2qN1xzybapC8G4wEGGkZwyTDt1v'' \<and>
   USDC_MINTS (Some ''solana:5eykt4UsFv8P8NJdTREpY1vzqKqZKvdp'')
     = Mint ''EPjFWdd5AufqSSqeM2qN1xzybapC8G4wEGGkZwyTDt1v'' \<and>
   Base_verify fac w clock (pp\<lparr>pp_network := Some ''base''\<rparr>) req
     = Base_verify fac w clock (pp\<lparr>pp_network := Some ''eip155:8453''\<rparr>) req \<and>
   snd (Base_settle fac w clock (pp\<lparr>pp_network := Some ''base''\<rparr>) req)
     = snd (Base_settle fac w clock (pp\<lparr>pp_network := Some ''eip155:8453''\<rparr>) req) \<and>
   (\<forall>n \<in> set supported_networks.
      resolve n \<noteq> NoBackend \<and> \<not> (isEvmNetwork n \<and> isSolanaNetwork n)) \<and>
   (isEvmNetwork n \<and> isSolanaNetwork n \<longrightarrow> resolve n = EvmBackend) \<and>
   (\<not> isEvmNetwork n \<and> \<not> isSolanaNetwork n \<and> n \<noteq> [] \<and>
    paymentPayload body = Some bp \<and> paymentRequirements body = Some br \<and>
    request_network bp br = n \<longrightarrow>
      verify_route facs wd reg body =
        (400, \<lparr>isValid = False, invalidReason = Some unsupported_network, payer = None\<rparr>, reg) \<and>
      settle_route facs wd body =
        (400, \<lparr>success = False, transaction = None, sr_network = Some n,
               errorReason = Some unsupported_network, sr_payer = None\<rparr>, [])) \<and>
   (paymentPayload body = Some bp \<and> paymentRequirements body = Some br \<and>
    request_network bp br = n \<and> resolve n = EvmBackend \<longrightarrow>
      fst (snd (verify_route facs wd reg body))
        = Base_verify (baseFacilitator facs) (evm wd) (clock_ms wd) bp br) \<and>
   (paymentPayload body = Some bp \<and> paymentRequirements body = Some br \<and>
    request_network bp br = n \<and> resolve n = SolanaBackend \<longrightarrow>
      fst (snd (verify_route facs wd reg body))
        = Solana_verify (solanaFacilitator facs) (sol wd) bp br) \<and>
   (paymentPayload body = Some bp \<and> paymentRequirements body = Some br \<and>
    request_network bp br = n \<and> resolve n = EvmBackend \<and>
    privateKey (baseFacilitator facs) \<noteq> None \<longrightarrow>
      fst (snd (settle_route facs wd body))
        = fst (Base_settle (baseFacilitator facs) (evm wd) (clock_ms wd) bp br) \<and>
      snd (snd (settle_route facs wd body))
        = map OnEvm (snd (Base_settle (baseFacilitator facs) (evm wd) (clock_ms wd) bp br))) \<and>
   (paymentPayload body = Some bp \<and> paymentRequirements body = Some br \<and>
    request_network bp br = n \<and> resolve n = SolanaBackend \<longrightarrow>
      fst (snd (settle_route facs wd body))
        = fst (Solana_settle (solanaFacilitator facs) (sol wd) bp br) \<and>
      snd (snd (settle_route facs wd body))
        = map OnSolana (snd (Solana_settle (solanaFacilitator facs) (sol wd) bp br)))"
proof (intro conjI impI)
  show "resolve ''base'' = EvmBackend" "resolve ''eip155:8453'' = EvmBackend"
    "resolve ''base-sepolia'' = EvmBackend" "resolve ''eip155:84532'' = EvmBackend"
    "resolve ''solana'' = SolanaBackend" "resolve ''solana-devnet'' = SolanaBackend"
    "resolve ''solana:5eykt4UsFv8P8NJdTREpY1vzqKqZKvdp'' = SolanaBackend"
    "resolve ''solana:EtWTRABZaYq6iMfeYKouRu166VU2xqa1'' = SolanaBackend"
    by (rule resolve_backends)+
  show "getChainId (Some ''base'') = Inr 8453" "getChainId (Some ''eip155:8453'') = Inr 8453"
    "getChainId (Some ''base-sepolia'') = Inr 84532" "getChainId (Some ''eip155:84532'') = Inr 84532"
    "getChainId (Some ''base'') = getChainId (Some ''eip155:8453'')"
    by (simp_all add: getChainId_def)
  show "USDC_MINTS (Some ''solana'') = Mint ''EPjFWdd5AufqSSqeM2qN1xzybapC8G4wEGGkZwyTDt1v''"
    "USDC_MINTS (Some ''solana:5eykt4UsFv8P8NJdTREpY1vzqKqZKvdp'')
       = Mint ''EPjFWdd5AufqSSqeM2qN1xzybapC8G4wEGGkZwyTDt1v''"
    by (simp_all add: USDC_MINTS_def)
  show "Base_verify fac w clock (pp\<lparr>pp_network := Some ''base''\<rparr>) req
     = Base_verify fac w clock (pp\<lparr>pp_network := Some ''eip155:8453''\<rparr>) req"
    by (rule Base_verify_same_chain) (simp_all add: getChainId_def)
  show "snd (Base_settle fac w clock (pp\<lparr>pp_network := Some ''base''\<rparr>) req)
     = snd (Base_settle fac w clock (pp\<lparr>pp_network := Some ''eip155:8453''\<rparr>) req)"
    by (rule Base_settle_same_chain) (simp_all add: getChainId_def)
  show "\<forall>n \<in> set supported_networks.
      resolve n \<noteq> NoBackend \<and> \<not> (isEvmNetwork n \<and> isSolanaNetwork n)"
    by (rule resolve_supported)
next
  assume "isEvmNetwork n \<and> isSolanaNetwork n"
  then show "resolve n = EvmBackend"
    by (simp add: resolve_both)
next
  assume h: "\<not> isEvmNetwork n \<and> \<not> isSolanaNetwork n \<and> n \<noteq> [] \<and>
    paymentPayload body = Some bp \<and> paymentRequirements body = Some br \<and>
    request_network bp br = n"
  then have none: "resolve n = NoBackend"
    by (simp add: resolve_neither)
  from h none show "verify_route facs wd reg body =
        (400, \<lparr>isValid = False, invalidReason = Some unsupported_network, payer = None\<rparr>, reg)"
    by (intro verify_route_unsupported [where n = n and pp = bp and req = br]) simp_all
  from h none show "settle_route facs wd body =
        (400, \<lparr>success = False, transaction = None, sr_network = Some n,
               errorReason = Some unsupported_network, sr_payer = None\<rparr>, [])"
    by (intro settle_route_unsupported [where n = n and pp = bp and req = br]) simp_all
next
  assume h: "paymentPayload body = Some bp \<and> paymentRequirements body = Some br \<and>
    request_network bp br = n \<and> resolve n = EvmBackend"
  then show "fst (snd (verify_route facs wd reg body))
        = Base_verify (baseFacilitator facs) (evm wd) (clock_ms wd) bp br"
    using verify_route_dispatch(1) [of body bp br n facs wd reg] by simp
next
  assume h: "paymentPayload body = Some bp \<and> paymentRequirements body = Some br \<and>
    request_network bp br = n \<and> resolve n = SolanaBackend"
  then show "fst (snd (verify_route facs wd reg body))
        = Solana_verify (solanaFacilitator facs) (sol wd) bp br"
    using verify_route_dispatch(2) [of body bp br n facs wd reg] by simp
next
  assume h: "paymentPayload body = Some bp \<and> paymentRequirements body = Some br \<and>
    request_network bp br = n \<and> resolve n = EvmBackend \<and>
    privateKey (baseFacilitator facs) \<noteq> None"
  then show "fst (snd (settle_route facs wd body))
        = fst (Base_settle (baseFacilitator facs) (evm wd) (clock_ms wd) bp br)"
    and "snd (snd (settle_route facs wd body))
        = map OnEvm (snd (Base_settle (baseFacilitator facs) (evm wd) (clock_ms wd) bp br))"
    using settle_route_dispatch(1) [of body bp br n facs wd] by simp_all
next
  assume h: "paymentPayload body = Some bp \<and> paymentRequirements body = Some br \<and>
    request_network bp br = n \<and> resolve n = SolanaBackend"
  then show "fst (snd (settle_route facs wd body))
        = fst (Solana_settle (solanaFacilitator facs) (sol wd) bp br)"
    and "snd (snd (settle_route facs wd body))
        = map OnSolana (snd (Solana_settle (solanaFacilitator facs) (sol wd) bp br))"
    using settle_route_dispatch(2) [of body bp br n facs wd] by simp_all
qed

theorem network_resolution_witness:
  "verify_route ex_facs ex_world [] (ex_body\<lparr>paymentPayload := Some (ex_payload\<lparr>pp_network := Some ''bitcoin''\<rparr>)\<rparr>)
     = (400, \<lparr>isValid = False, invalidReason = Some unsupported_network, payer = None\<rparr>, []) \<and>
   resolve ''solana:5eykt4UsFv8P8NJdTREpY1vzqKqZKvdp'' \<noteq> NoBackend \<and>
   resolve ''solana-base'' = EvmBackend \<and>
   fst (snd (verify_route ex_facs ex_world [] ex_body)) = valid ''0xPayer'' \<and>
   fst (snd (verify_route ex_facs ex_world [] (ex_body\<lparr>paymentPayload := Some ex_sol_payload\<rparr>)))
     = valid ''PayerKey'' \<and>
   snd (snd (settle_route ex_facs ex_world ex_body))
     = [OnEvm (TransferWithAuthorization 8453 ''0xFacilitator''
         (typed_message ex_auth 10000 0 2000000000) ''0xsig'')] \<and>
   snd (snd (settle_route ex_facs ex_world (ex_body\<lparr>paymentPayload := Some ex_sol_payload\<rparr>)))
     = [OnSolana (SendVersioned ex_vtx)]"
proof -
  let ?body = "ex_body\<lparr>paymentPayload := Some (ex_payload\<lparr>pp_network := Some ''bitcoin''\<rparr>)\<rparr>"
  let ?sbody = "ex_body\<lparr>paymentPayload := Some ex_sol_payload\<rparr>"
  have pats: "\<not> isEvmNetwork ''bitcoin''" "\<not> isSolanaNetwork ''bitcoin''"
    "isEvmNetwork ''solana-base''" "isSolanaNetwork ''solana-base''" "isEvmNetwork ''eip155:1''"
    by (simp_all add: isEvmNetwork_def isSolanaNetwork_def startsWith_def)
  have req: "paymentPayload ?body = Some (ex_payload\<lparr>pp_network := Some ''bitcoin''\<rparr>)"
    "paymentRequirements ?body = Some ex_req"
    "request_network (ex_payload\<lparr>pp_network := Some ''bitcoin''\<rparr>) ex_req = ''bitcoin''"
    by (simp_all add: ex_body_def request_network_def or_else_def)
  have sel: "paymentPayload ex_body = Some ex_payload" "paymentRequirements ex_body = Some ex_req"
    "request_network ex_payload ex_req = ''base''"
    "paymentPayload ?sbody = Some ex_sol_payload" "paymentRequirements ?sbody = Some ex_req"
    "request_network ex_sol_payload ex_req = ''solana''"
    "baseFacilitator ex_facs = ex_base" "solanaFacilitator ex_facs = ex_solana"
    "evm ex_world = ex_evm True 10000 False" "sol ex_world = ex_sol" "clock_ms ex_world = ex_clock"
    "privateKey ex_base \<noteq> None"
    by (simp_all add: ex_body_def request_network_def or_else_def ex_payload_def ex_sol_payload_def
        ex_facs_def ex_world_def ex_base_def BaseFacilitator_new_def)
  have 1: "verify_route ex_facs ex_world [] ?body
     = (400, \<lparr>isValid = False, invalidReason = Some unsupported_network, payer = None\<rparr>, [])"
    using network_resolution [where n = "''bitcoin''" and body = ?body
        and bp = "ex_payload\<lparr>pp_network := Some ''bitcoin''\<rparr>" and br = ex_req
        and facs = ex_facs and wd = ex_world and reg = "[]"] pats req
    by simp
  have 2: "resolve ''solana:5eykt4UsFv8P8NJdTREpY1vzqKqZKvdp'' \<noteq> NoBackend"
    using network_resolution by (simp add: supported_networks_def)
  have 3: "resolve ''solana-base'' = EvmBackend"
    using network_resolution [where n = "''solana-base''"] pats by simp
  have base: "resolve ''base'' = EvmBackend"
    by (rule network_resolution [THEN conjunct1])
  have solana: "resolve ''solana'' = SolanaBackend"
    using network_resolution by simp
  have 4: "fst (snd (verify_route ex_facs ex_world [] ex_body)) = valid ''0xPayer''"
    using network_resolution [where n = "''base''" and body = ex_body and bp = ex_payload
        and br = ex_req and facs = ex_facs and wd = ex_world and reg = "[]"] sel(1-3) base
    by (simp add: sel(7-11) ex_valid)
  have 5: "fst (snd (verify_route ex_facs ex_world [] ?sbody)) = valid ''PayerKey''"
    using network_resolution [where n = "''solana''" and body = ?sbody and bp = ex_sol_payload
        and br = ex_req and facs = ex_facs and wd = ex_world and reg = "[]"] sel(4-6) solana
    by (simp add: sel(7-11) ex_sol_valid)
  have 6: "snd (snd (settle_route ex_facs ex_world ex_body))
     = [OnEvm (TransferWithAuthorization 8453 ''0xFacilitator''
         (typed_message ex_auth 10000 0 2000000000) ''0xsig'')]"
    using network_resolution [where n = "''base''" and body = ex_body and bp = ex_payload
        and br = ex_req and facs = ex_facs and wd = ex_world] sel(1-3) base sel(12)
    by (simp add: sel(7-11) ex_settled)
  have "broadcast ex_solana ex_sol ''AQAB'' = (Inr ''sig-versioned'', [SendVersioned ex_vtx])"
    by (simp add: broadcast_def ex_sol_def)
  then have sent: "snd (Solana_settle ex_solana ex_sol ex_sol_payload ex_req) = [SendVersioned ex_vtx]"
    using Solana_settle_writes [where sfac = ex_solana and sw = ex_sol and pp = ex_sol_payload
        and req = ex_req and tx = "''AQAB''"]
    by (simp add: ex_sol_valid valid_def ex_sol_decodes)
  have 7: "snd (snd (settle_route ex_facs ex_world ?sbody)) = [OnSolana (SendVersioned ex_vtx)]"
    using network_resolution [where n = "''solana''" and body = ?sbody and bp = ex_sol_payload
        and br = ex_req and facs = ex_facs and wd = ex_world] sel(4-6) solana
    by (simp add: sel(7-11) sent)
  from 1 2 3 4 5 6 7 show ?thesis by simp
qed

text \<open>
  The claim as first stated fails: \<^verbatim>\<open>solana-base\<close> matches the patterns of both
  families; and the unknown identifier \<^verbatim>\<open>eip155:1\<close> matches the account-authorization
  pattern, is handed to that backend and is answered \<open>unexpected_error\<close>, not
  \<open>unsupported_network\<close>.
\<close>

theorem network_patterns_overlap:
  "isEvmNetwork ''solana-base'' \<and> isSolanaNetwork ''solana-base'' \<and>
   resolve ''eip155:1'' = EvmBackend \<and>
   fst (snd (verify_route ex_facs ex_world []
       (ex_body\<lparr>paymentPayload := Some (ex_payload\<lparr>pp_network := Some ''eip155:1''\<rparr>)\<rparr>)))
     = \<lparr>isValid = False, invalidReason = Some unexpected_error, payer = None\<rparr>"
proof -
  have "Base_verify ex_base (ex_evm True 10000 False) ex_clock
          (ex_payload\<lparr>pp_network := Some ''eip155:1''\<rparr>) ex_req = verify_unexpected"
    by (simp add: Base_verify_def Base_verify_try_def getChainId_def)
  then show ?thesis
    by (simp add: isEvmNetwork_def isSolanaNetwork_def startsWith_def resolve_def verify_route_def
        ex_body_def request_network_def or_else_def ex_facs_def ex_world_def verify_unexpected_def)
qed

section \<open>What a verification request changes\<close>

lemma verify_route_response:
  "fst (verify_route facs w reg body) = fst (verify_route facs w reg' body) \<and>
   fst (snd (verify_route facs w reg body)) = fst (snd (verify_route facs w reg' body))"
  by (simp add: verify_route_def Let_def split: option.splits)

text \<open>The response of the route before the catalog step, for a well-formed body.\<close>

lemma verify_route_cases:
  assumes "paymentPayload body = Some pp" and "paymentRequirements body = Some req"
    and "request_network pp req \<noteq> []"
  obtains (accepted) r where "isValid r"
      "verify_route facs w reg body
         = (200, r, catalogFromPayment reg (clock_ms w) (x402Version body) req)"
    | (refused) r where "\<not> isValid r" "verify_route facs w reg body = (400, r, reg)"
proof -
  define r where "r =
    (case resolve (request_network pp req) of
       EvmBackend \<Rightarrow> Base_verify (baseFacilitator facs) (evm w) (clock_ms w) pp req
     | SolanaBackend \<Rightarrow> Solana_verify (solanaFacilitator facs) (sol w) pp req
     | NoBackend \<Rightarrow> \<lparr>isValid = False, invalidReason = Some unsupported_network, payer = None\<rparr>)"
  have "verify_route facs w reg body =
    (if isValid r then (200, r, catalogFromPayment reg (clock_ms w) (x402Version body) req)
     else (400, r, reg))"
    using assms by (simp add: verify_route_def r_def Let_def)
  then show thesis
    by (cases "isValid r") (auto intro: accepted refused)
qed

lemma verify_route_malformed:
  assumes "paymentPayload body = None \<or> paymentRequirements body = None \<or>
    (\<exists>pp req. paymentPayload body = Some pp \<and> paymentRequirements body = Some req \<and>
       request_network pp req = [])"
  shows "verify_route facs w reg body =
     (400, \<lparr>isValid = False, invalidReason = Some invalid_payload, payer = None\<rparr>, reg)"
  using assms by (auto simp: verify_route_def split: option.splits)

lemma verify_route_invalid:
  assumes "\<not> isValid (fst (snd (verify_route facs w reg body)))"
  shows "snd (snd (verify_route facs w reg body)) = reg"
proof (cases "paymentPayload body")
  case None
  then show ?thesis by (simp add: verify_route_malformed)
next
  case pp: (Some pp)
  show ?thesis
  proof (cases "paymentRequirements body")
    case None
    then show ?thesis by (simp add: verify_route_malformed)
  next
    case req: (Some req)
    show ?thesis
    proof (cases "request_network pp req = []")
      case True
      with pp req show ?thesis by (simp add: verify_route_malformed)
    next
      case False
      from pp req False show ?thesis
        using assms by (cases rule: verify_route_cases [where facs = facs and w = w and reg = reg]) simp_all
    qed
  qed
qed

lemma verify_route_valid:
  assumes "isValid (fst (snd (verify_route facs w reg body)))"
    and "paymentRequirements body = Some req"
  shows "snd (snd (verify_route facs w reg body))
         = catalogFromPayment reg (clock_ms w) (x402Version body) req"
proof (cases "paymentPayload body")
  case None
  with assms show ?thesis by (simp add: verify_route_malformed)
next
  case pp: (Some pp)
  show ?thesis
  proof (cases "request_network pp req = []")
    case True
    with pp assms show ?thesis by (simp add: verify_route_malformed)
  next
    case False
    from pp assms(2) False show ?thesis
      using assms(1) by (cases rule: verify_route_cases [where facs = facs and w = w and reg = reg]) simp_all
  qed
qed

lemma catalog_opt_in: "bazaar req = None \<Longrightarrow> catalogFromPayment reg clock v req = reg"
  by (simp add: catalogFromPayment_def extractDiscoveryInfo_def)

lemma ex_catalog:
  "catalogFromPayment [] ex_clock 1 ex_req =
     [(''https://api.example.com/data'',
       \<lparr>dr_resource = ''https://api.example.com/data'', dr_type = ''http'', dr_x402Version = 1,
        accepts = [\<lparr>acc_scheme = ''exact'', acc_network = ''base'', amount = ''10000'',
                    acc_asset = ''0xUSDC'', acc_payTo = ''0xabcd''\<rparr>],
        lastUpdated = 1700000000000,
        metadata = Some \<lparr>md_description = Some ''API access'', md_input = None,
                          inputSchema = None, md_output = None, outputSchema = None\<rparr>\<rparr>)]"
  by (simp add: catalogFromPayment_def extractDiscoveryInfo_def registerResource_def ex_req_def
      ex_clock_def)

lemma ex_route:
  "verify_route ex_facs ex_world reg ex_body
     = (200, valid ''0xPayer'', catalogFromPayment reg ex_clock 1 ex_req)"
proof -
  have "request_network ex_payload ex_req = ''base''"
    by (simp add: request_network_def or_else_def ex_payload_def)
  moreover have "resolve ''base'' = EvmBackend"
    by (simp add: resolve_def isEvmNetwork_def startsWith_def)
  ultimately show ?thesis
    by (simp add: verify_route_def ex_body_def ex_facs_def ex_world_def ex_valid valid_def)
qed

text \<open>
  Claim C9, as amended. The status and the response of a verify request do not depend on
  the Discovery Catalog, so the same request, with the clock and both chains unchanged,
  is answered the same a second time; the backends' verify returns a response and nothing
  else, with no ledger write. The catalog is left as it was when the response is invalid
  or the requirements carry no discovery extension; when the response is valid, the
  verify route catalogs the requirements. The settle route has no access to the catalog.
\<close>

theorem verify_route_effects:
  "fst (verify_route facs w reg body) = fst (verify_route facs w reg' body) \<and>
   fst (snd (verify_route facs w reg body)) = fst (snd (verify_route facs w reg' body)) \<and>
   fst (snd (verify_route facs w (snd (snd (verify_route facs w reg body))) body))
     = fst (snd (verify_route facs w reg body)) \<and>
   (\<not> isValid (fst (snd (verify_route facs w reg body))) \<longrightarrow>
      snd (snd (verify_route facs w reg body)) = reg) \<and>
   (paymentRequirements body = Some req \<and> bazaar req = None \<longrightarrow>
      snd (snd (verify_route facs w reg body)) = reg) \<and>
   (isValid (fst (snd (verify_route facs w reg body))) \<and> paymentRequirements body = Some req \<longrightarrow>
      snd (snd (verify_route facs w reg body))
        = catalogFromPayment reg (clock_ms w) (x402Version body) req)"
proof (intro conjI impI)
  show "fst (verify_route facs w reg body) = fst (verify_route facs w reg' body)"
    "fst (snd (verify_route facs w reg body)) = fst (snd (verify_route facs w reg' body))"
    using verify_route_response [of facs w reg body reg'] by simp_all
  show "fst (snd (verify_route facs w (snd (snd (verify_route facs w reg body))) body))
     = fst (snd (verify_route facs w reg body))"
    using verify_route_response [of facs w "snd (snd (verify_route facs w reg body))" body reg]
    by simp
next
  assume "\<not> isValid (fst (snd (verify_route facs w reg body)))"
  then show "snd (snd (verify_route facs w reg body)) = reg"
    by (rule verify_route_invalid)
next
  assume h: "paymentRequirements body = Some req \<and> bazaar req = None"
  show "snd (snd (verify_route facs w reg body)) = reg"
  proof (cases "isValid (fst (snd (verify_route facs w reg body)))")
    case True
    with h show ?thesis
      by (simp add: verify_route_valid catalog_opt_in)
  next
    case False
    then show ?thesis
      by (rule verify_route_invalid)
  qed
next
  assume "isValid (fst (snd (verify_route facs w reg body))) \<and> paymentRequirements body = Some req"
  then show "snd (snd (verify_route facs w reg body))
        = catalogFromPayment reg (clock_ms w) (x402Version body) req"
    by (simp add: verify_route_valid)
qed

theorem verify_route_effects_witness:
  "snd (snd (verify_route ex_facs ex_world [] ex_body)) = catalogFromPayment [] ex_clock 1 ex_req \<and>
   snd (snd (verify_route ex_facs ex_world []
      (ex_body\<lparr>paymentRequirements := Some (ex_req\<lparr>bazaar := None\<rparr>)\<rparr>))) = [] \<and>
   snd (snd (verify_route ex_facs ex_world (catalogFromPayment [] ex_clock 1 ex_req)
      (ex_body\<lparr>paymentPayload := None\<rparr>))) = catalogFromPayment [] ex_clock 1 ex_req"
proof -
  have sel: "paymentRequirements ex_body = Some ex_req" "x402Version ex_body = 1"
    "clock_ms ex_world = ex_clock"
    by (simp_all add: ex_body_def ex_world_def)
  have 1: "snd (snd (verify_route ex_facs ex_world [] ex_body))
      = catalogFromPayment [] ex_clock 1 ex_req"
    using verify_route_effects [where facs = ex_facs and w = ex_world and reg = "[]"
        and body = ex_body and req = ex_req]
    by (simp add: ex_route valid_def sel)
  have 2: "snd (snd (verify_route ex_facs ex_world []
      (ex_body\<lparr>paymentRequirements := Some (ex_req\<lparr>bazaar := None\<rparr>)\<rparr>))) = []"
    using verify_route_effects [where facs = ex_facs and w = ex_world and reg = "[]"
        and body = "ex_body\<lparr>paymentRequirements := Some (ex_req\<lparr>bazaar := None\<rparr>)\<rparr>"
        and req = "ex_req\<lparr>bazaar := None\<rparr>"]
    by simp
  have 3: "snd (snd (verify_route ex_facs ex_world (catalogFromPayment [] ex_clock 1 ex_req)
      (ex_body\<lparr>paymentPayload := None\<rparr>))) = catalogFromPayment [] ex_clock 1 ex_req"
    using verify_route_effects [where facs = ex_facs and w = ex_world
        and reg = "catalogFromPayment [] ex_clock 1 ex_req"
        and body = "ex_body\<lparr>paymentPayload := None\<rparr>"]
    by (simp add: verify_route_malformed)
  from 1 2 3 show ?thesis by simp
qed

text \<open>
  The claim as first stated fails: a valid verify request with the discovery extension,
  on an empty catalog, leaves a catalog of one entry.
\<close>

theorem verify_request_updates_catalog:
  "verify_route ex_facs ex_world [] ex_body =
     (200, \<lparr>isValid = True, invalidReason = None, payer = Some ''0xPayer''\<rparr>,
      [(''https://api.example.com/data'',
        \<lparr>dr_resource = ''https://api.example.com/data'', dr_type = ''http'', dr_x402Version = 1,
         accepts = [\<lparr>acc_scheme = ''exact'', acc_network = ''base'', amount = ''10000'',
                     acc_asset = ''0xUSDC'', acc_payTo = ''0xabcd''\<rparr>],
         lastUpdated = 1700000000000,
         metadata = Some \<lparr>md_description = Some ''API access'', md_input = None,
                           inputSchema = None, md_output = None, outputSchema = None\<rparr>\<rparr>)])"
  by (simp add: ex_route ex_catalog valid_def)

section \<open>The invariant of the Discovery Catalog\<close>

text \<open>
  Every history of catalog operations leaves a registry with one entry per resource URL,
  each stored under its own URL, of type \<^verbatim>\<open>'http'\<close>, and with \<open>accepts\<close> of distinct
  joined keys, hence of distinct (network, asset) pairs. \<open>registerResource\<close> preserves this
  for every incoming resource that satisfies it itself.
\<close>

lemma unique_keys_pairs: "unique_keys r \<Longrightarrow> unique_pairs r"
proof -
  assume "unique_keys r"
  moreover have "map accept_key (accepts r)
      = map (\<lambda>(n, a). n @ '':'' @ a) (map accept_pair (accepts r))"
    by (simp add: accept_key_def accept_pair_def)
  ultimately show "unique_pairs r"
    unfolding unique_keys_def unique_pairs_def by (metis distinct_map)
qed

lemma catalog_ok_inv: "catalog_ok reg \<Longrightarrow> catalog_inv reg"
  by (auto simp: catalog_ok_def catalog_inv_def entry_ok_def list_all_iff unique_keys_pairs)

lemma extract_entry_ok:
  "extractDiscoveryInfo clock v req = Some res \<Longrightarrow> entry_ok (dr_resource res) res \<and> length (accepts res) = 1"
  by (auto simp: extractDiscoveryInfo_def entry_ok_def unique_keys_def split: option.splits)

lemma merge_entry_ok:
  assumes "entry_ok k v" and "unique_keys res"
  shows "entry_ok k (merge_resource v res)"
proof -
  let ?old = "map accept_key (accepts v)"
  let ?new = "map accept_key (filter (\<lambda>a. accept_key a \<notin> set ?old) (accepts res))"
  have "distinct ?old"
    using assms(1) by (simp add: entry_ok_def unique_keys_def)
  moreover have "distinct ?new"
    using assms(2) by (simp add: unique_keys_def distinct_map_filter)
  moreover have "set ?old \<inter> set ?new = {}"
    by (auto simp: image_iff)
  ultimately have "distinct (?old @ ?new)"
    by simp
  with assms(1) show ?thesis
    by (simp add: entry_ok_def unique_keys_def merge_resource_def)
qed

lemma register_ok:
  assumes "catalog_ok reg" and "entry_ok (dr_resource res) res"
  shows "catalog_ok (registerResource reg res)"
proof (cases "map_of reg (dr_resource res)")
  case None
  then have "dr_resource res \<notin> fst ` set reg"
    by (simp add: map_of_eq_None_iff)
  with None assms show ?thesis
    by (simp add: registerResource_def catalog_ok_def)
next
  case (Some existing)
  let ?f = "\<lambda>(k, v). if k = dr_resource res then (k, merge_resource v res) else (k, v)"
  have keys: "map fst (map ?f reg) = map fst reg"
    by (induction reg) auto
  have res: "unique_keys res"
    using assms(2) by (simp add: entry_ok_def)
  have "entry_ok k v \<Longrightarrow> (case ?f (k, v) of (k', r) \<Rightarrow> entry_ok k' r)" for k v
    using merge_entry_ok [OF _ res, of k v] by auto
  then have "list_all (\<lambda>(k, r). entry_ok k r) (map ?f reg)"
    using assms(1) by (force simp: catalog_ok_def list_all_iff)
  moreover have "distinct (map fst (map ?f reg))"
    using assms(1) unfolding keys by (simp add: catalog_ok_def)
  ultimately show ?thesis
    using Some by (simp add: registerResource_def catalog_ok_def)
qed

lemma apply_op_ok: "catalog_ok reg \<Longrightarrow> catalog_ok (apply_op reg op)"
proof (cases op)
  case (Catalog clock v req)
  assume ok: "catalog_ok reg"
  show ?thesis
  proof (cases "extractDiscoveryInfo clock v req")
    case None
    with Catalog ok show ?thesis by (simp add: catalogFromPayment_def)
  next
    case (Some res)
    with Catalog ok show ?thesis
      using extract_entry_ok [OF Some] by (simp add: catalogFromPayment_def register_ok)
  qed
next
  case (Remove url)
  assume "catalog_ok reg"
  with Remove show ?thesis
    by (auto simp: removeResource_def catalog_ok_def list_all_iff distinct_map_filter)
next
  case Clear
  then show ?thesis by (simp add: clearRegistry_def catalog_ok_def)
qed

lemma foldl_ok: "catalog_ok reg \<Longrightarrow> catalog_ok (foldl apply_op reg ops)"
  by (induction ops arbitrary: reg) (simp_all add: apply_op_ok)

lemma run_ok: "catalog_ok (run ops)"
  unfolding run_def by (rule foldl_ok) (simp add: catalog_ok_def)

lemma run_inv: "catalog_inv (run ops)"
  by (rule catalog_ok_inv [OF run_ok])

lemma run_http: "r \<in> set (map snd (run ops)) \<Longrightarrow> dr_type r = ''http''"
  using run_ok [of ops] by (auto simp: catalog_ok_def list_all_iff entry_ok_def)

text \<open>
  Merging into an existing entry: the entry keeps its place and its URL, the other
  entries are untouched, the incoming \<open>accepts\<close> with a key not yet present are appended,
  the version is the maximum, the time stamp is the incoming one, and the metadata are
  spread. Cataloging one resource twice with two different joined keys leaves one entry
  with both pairs.
\<close>

lemma register_existing:
  assumes "map_of reg (dr_resource res) = Some existing" and "distinct (map fst reg)"
  shows "map_of (registerResource reg res) (dr_resource res) = Some (merge_resource existing res)"
    and "map fst (registerResource reg res) = map fst reg"
    and "k \<noteq> dr_resource res \<Longrightarrow> map_of (registerResource reg res) k = map_of reg k"
proof -
  let ?f = "\<lambda>(k, v). if k = dr_resource res then (k, merge_resource v res) else (k, v)"
  have reg': "registerResource reg res = map ?f reg"
    using assms(1) by (simp add: registerResource_def)
  show "map fst (registerResource reg res) = map fst reg"
    unfolding reg' by (induction reg) auto
  have "map_of (map ?f reg) k
      = (if k = dr_resource res then map_option (\<lambda>v. merge_resource v res) (map_of reg k)
         else map_of reg k)" for k
    by (induction reg) auto
  with assms(1) show "map_of (registerResource reg res) (dr_resource res) = Some (merge_resource existing res)"
    and "k \<noteq> dr_resource res \<Longrightarrow> map_of (registerResource reg res) k = map_of reg k"
    unfolding reg' by simp_all
qed

lemma merge_fields:
  "accepts (merge_resource existing res)
     = accepts existing @ filter (\<lambda>a. accept_key a \<notin> accept_key ` set (accepts existing)) (accepts res)"
  "dr_x402Version (merge_resource existing res) = max (dr_x402Version existing) (dr_x402Version res)"
  "lastUpdated (merge_resource existing res) = lastUpdated res"
  "dr_resource (merge_resource existing res) = dr_resource existing"
  "dr_type (merge_resource existing res) = dr_type existing"
  "metadata (merge_resource existing res)
     = (case metadata res of None \<Rightarrow> metadata existing | Some m \<Rightarrow> Some (spread (metadata existing) m))"
  by (simp_all add: merge_resource_def)

lemma catalog_twice:
  assumes "bazaar r1 \<noteq> None" and "bazaar r2 \<noteq> None" and "resource r1 = resource r2"
    and "pr_network r1 @ '':'' @ asset r1 \<noteq> pr_network r2 @ '':'' @ asset r2"
  shows "\<exists>e. catalogFromPayment (catalogFromPayment [] t1 v1 r1) t2 v2 r2 = [(resource r1, e)] \<and>
     map accept_pair (accepts e) = [(pr_network r1, asset r1), (pr_network r2, asset r2)]"
  using assms
  by (auto simp: catalogFromPayment_def extractDiscoveryInfo_def registerResource_def
      merge_resource_def accept_key_def accept_pair_def)

text \<open>
  Claim C7 at a failing input. The key that decides whether an incoming \<open>accepts\<close>
  element is new is the network and the asset joined by a colon, and a network
  identifier may itself contain a colon: the pairs (\<^verbatim>\<open>eip155\<close>, \<^verbatim>\<open>8453:0xUSDC\<close>) and
  (\<^verbatim>\<open>eip155:8453\<close>, \<^verbatim>\<open>0xUSDC\<close>) differ and have the same key. Cataloging the same resource
  with the first and then with the second leaves an entry that holds the first pair
  only, where the claim prescribes both.
\<close>

theorem catalog_key_collision:
  "(pr_network (ex_req\<lparr>pr_network := ''eip155'', asset := ''8453:0xUSDC''\<rparr>),
    asset (ex_req\<lparr>pr_network := ''eip155'', asset := ''8453:0xUSDC''\<rparr>))
     \<noteq> (pr_network (ex_req\<lparr>pr_network := ''eip155:8453'', asset := ''0xUSDC''\<rparr>),
         asset (ex_req\<lparr>pr_network := ''eip155:8453'', asset := ''0xUSDC''\<rparr>)) \<and>
   map (\<lambda>(k, r). (k, map accept_pair (accepts r)))
     (catalogFromPayment
        (catalogFromPayment [] 1000 2 (ex_req\<lparr>pr_network := ''eip155'', asset := ''8453:0xUSDC''\<rparr>))
        2000 2 (ex_req\<lparr>pr_network := ''eip155:8453'', asset := ''0xUSDC''\<rparr>))
     = [(''https://api.example.com/data'', [(''eip155'', ''8453:0xUSDC'')])]"
  by (simp add: catalogFromPayment_def extractDiscoveryInfo_def registerResource_def
      merge_resource_def accept_key_def accept_pair_def ex_req_def)

section \<open>Listing the catalog\<close>

text \<open>
  For a window that starts at a non-negative offset and has a non-negative length,
  \<^verbatim>\<open>slice\<close> is \<open>take\<close> after \<open>drop\<close>. The stable sort on the negated time stamp produces
  the one list that is \<open>newest_first\<close>.
\<close>

lemma js_slice_window:
  assumes "0 \<le> k" and "0 \<le> l"
  shows "js_slice xs k (k + l) = take (nat l) (drop (nat k) xs)"
proof (cases "k \<le> int (length xs)")
  case True
  have "take (nat (min (k + l) (int (length xs)) - k)) (drop (nat k) xs)
      = take (nat l) (drop (nat k) xs)"
  proof (cases "k + l \<le> int (length xs)")
    case True
    then show ?thesis by (simp add: min_def)
  next
    case False
    with assms \<open>k \<le> int (length xs)\<close> show ?thesis
      by (simp add: min_def nat_diff_distrib')
  qed
  with True assms show ?thesis
    by (simp add: js_slice_def Let_def min_def)
next
  case False
  with assms show ?thesis
    by (simp add: js_slice_def Let_def min_def)
qed

lemma sort_newest_first: "newest_first xs (sort_key (\<lambda>r. - lastUpdated r) xs)"
proof -
  have "sorted (map (\<lambda>r. - lastUpdated r) (sort_key (\<lambda>r. - lastUpdated r) xs))"
    by (rule sorted_sort_key)
  then have "sorted_wrt (\<lambda>a b. lastUpdated b \<le> lastUpdated a) (sort_key (\<lambda>r. - lastUpdated r) xs)"
    by (simp add: sorted_map)
  moreover have "filter (\<lambda>x. lastUpdated x = lastUpdated r) (sort_key (\<lambda>r. - lastUpdated r) xs)
      = filter (\<lambda>x. lastUpdated x = lastUpdated r) xs" for r
    using sort_key_stable [of "\<lambda>r. - lastUpdated r" "- lastUpdated r" xs] by simp
  ultimately show ?thesis
    by (auto simp: newest_first_def list_all_iff)
qed

lemma newest_first_unique:
  assumes "newest_first xs ys"
  shows "ys = sort_key (\<lambda>r. - lastUpdated r) xs"
proof -
  have m: "mset ys = mset xs"
    using assms by (simp add: newest_first_def)
  then have s: "set ys = set xs"
    by (rule mset_eq_setD)
  have "filter (\<lambda>x. - lastUpdated r = - lastUpdated x) ys
      = filter (\<lambda>x. - lastUpdated r = - lastUpdated x) xs" if "r \<in> set ys" for r
  proof -
    have flip: "filter (\<lambda>x. - lastUpdated r = - lastUpdated x) zs
        = filter (\<lambda>x. lastUpdated x = lastUpdated r) zs" for zs
      by (intro filter_cong refl) auto
    have "filter (\<lambda>x. lastUpdated x = lastUpdated r) ys
        = filter (\<lambda>x. lastUpdated x = lastUpdated r) xs"
      using assms that s by (auto simp: newest_first_def list_all_iff)
    then show ?thesis
      by (simp only: flip)
  qed
  moreover have "sorted (map (\<lambda>r. - lastUpdated r) ys)"
    using assms by (simp add: newest_first_def sorted_map)
  ultimately show ?thesis
    using properties_for_sort_key [OF m, of "\<lambda>r. - lastUpdated r"] by simp
qed

lemma listResources_typed:
  assumes "t \<noteq> []"
  shows "listResources reg \<lparr>q_type = Some t, q_limit = Some l, q_offset = Some k\<rparr> =
     \<lparr>l_x402Version = 2,
      items = js_slice (sort_key (\<lambda>r. - lastUpdated r) (matching reg t)) k (k + l),
      pagination = \<lparr>p_limit = l, p_offset = k, total = length (matching reg t)\<rparr>\<rparr>"
  using assms by (simp add: listResources_def matching_def)

lemma three_sorted:
  assumes "mset xs = {#x, y, z#}"
    and "lastUpdated z < lastUpdated y" and "lastUpdated y < lastUpdated x"
  shows "sort_key (\<lambda>r. - lastUpdated r) xs = [x, y, z]"
proof (rule properties_for_sort_key)
  show "mset [x, y, z] = mset xs"
    using assms(1) by simp
  show "sorted (map (\<lambda>r. - lastUpdated r) [x, y, z])"
    using assms(2,3) by simp
  fix k assume k: "k \<in> set [x, y, z]"
  let ?P = "\<lambda>r. - lastUpdated k = - lastUpdated r"
  have own: "filter ?P [x, y, z] = [k]"
    using k assms(2,3) by auto
  have "mset (filter ?P xs) = mset (filter ?P [x, y, z])"
    using assms(1) by simp
  then have "mset (filter ?P xs) = {#k#}"
    by (simp only: own) simp
  then have "filter ?P xs = [k]"
    by (simp only: mset_single_iff)
  with own show "filter ?P [x, y, z] = filter ?P xs"
    by simp
qed


lemma all_http_matching:
  assumes "\<forall>r \<in> set (map snd reg). dr_type r = ''http''"
  shows "matching reg ''http'' = map snd reg"
  using assms by (simp add: matching_def)

lemma listResources_defaults:
  "listResources reg \<lparr>q_type = None, q_limit = None, q_offset = None\<rparr>
     = listResources reg \<lparr>q_type = Some ''http'', q_limit = Some 20, q_offset = Some 0\<rparr>"
  "listResources reg \<lparr>q_type = None, q_limit = Some l, q_offset = Some k\<rparr>
     = listResources reg \<lparr>q_type = Some ''http'', q_limit = Some l, q_offset = Some k\<rparr>"
  by (simp_all add: listResources_def)

lemma listResources_untyped:
  "listResources reg \<lparr>q_type = Some [], q_limit = Some l, q_offset = Some k\<rparr> =
     \<lparr>l_x402Version = 2,
      items = js_slice (sort_key (\<lambda>r. - lastUpdated r) (map snd reg)) k (k + l),
      pagination = \<lparr>p_limit = l, p_offset = k, total = length reg\<rparr>\<rparr>"
  by (simp add: listResources_def)

lemma list_three:
  assumes m: "mset (map snd reg) = {#x, y, z#}"
    and http: "dr_type x = ''http''" "dr_type y = ''http''" "dr_type z = ''http''"
    and order: "lastUpdated z < lastUpdated y" "lastUpdated y < lastUpdated x"
  shows "listResources reg \<lparr>q_type = Some ''http'', q_limit = Some 1, q_offset = Some 1\<rparr> =
     \<lparr>l_x402Version = 2, items = [y],
      pagination = \<lparr>p_limit = 1, p_offset = 1, total = 3\<rparr>\<rparr>"
proof -
  have m': "mset (map snd reg) = mset [x, y, z]"
    using m by simp
  have "set (map snd reg) = {x, y, z}"
    using mset_eq_setD [OF m'] by simp
  with http have all: "matching reg ''http'' = map snd reg"
    by (intro all_http_matching) auto
  have "length (map snd reg) = 3"
    using mset_eq_length [OF m'] by simp
  moreover have "sort_key (\<lambda>r. - lastUpdated r) (map snd reg) = [x, y, z]"
    using m order by (rule three_sorted)
  ultimately show ?thesis
    by (simp add: listResources_typed all js_slice_def)
qed

lemma ex_run:
  "run ex_history =
     [(''https://a.example'', ex_entry ''https://a.example'' 1000),
      (''https://b.example'', ex_entry ''https://b.example'' 3000),
      (''https://c.example'', ex_entry ''https://c.example'' 2000)]"
  by (simp add: run_def ex_history_def catalogFromPayment_def extractDiscoveryInfo_def
      registerResource_def ex_req_def ex_entry_def)

lemma ex_sorted:
  "sort_key (\<lambda>r. - lastUpdated r) (map snd (run ex_history)) =
     [ex_entry ''https://b.example'' 3000, ex_entry ''https://c.example'' 2000,
      ex_entry ''https://a.example'' 1000]"
  by (simp add: ex_run) (simp add: ex_entry_def)

text \<open>
  Claim C8, as amended. For every registry, every non-empty type and every non-negative
  limit and offset, list returns the entries of that type sorted by \<open>lastUpdated\<close>
  descending (entries of equal time stamp in registry order), cut to the window
  \<open>[offset, offset + limit)\<close>, and reports as total the number of entries of that type
  before the cut. Absent parameters stand for \<^verbatim>\<open>'http'\<close>, 20 and 0. An empty type
  switches the filter off: the total is then the size of the registry. Over three
  registered resources of distinct time stamps, \<open>limit = 1\<close> and \<open>offset = 1\<close> return
  exactly the second most recently updated one, with total 3.
\<close>

theorem listResources_pagination:
  "(t \<noteq> [] \<and> 0 \<le> l \<and> 0 \<le> k \<longrightarrow>
      (\<exists>S. newest_first (matching reg t) S \<and>
         listResources reg \<lparr>q_type = Some t, q_limit = Some l, q_offset = Some k\<rparr> =
           \<lparr>l_x402Version = 2, items = take (nat l) (drop (nat k) S),
            pagination = \<lparr>p_limit = l, p_offset = k, total = length (matching reg t)\<rparr>\<rparr>)) \<and>
   listResources reg \<lparr>q_type = None, q_limit = None, q_offset = None\<rparr>
     = listResources reg \<lparr>q_type = Some ''http'', q_limit = Some 20, q_offset = Some 0\<rparr> \<and>
   total (pagination (listResources reg \<lparr>q_type = Some [], q_limit = Some l, q_offset = Some k\<rparr>))
     = length reg \<and>
   (mset (map snd reg) = {#x, y, z#} \<and>
    dr_type x = ''http'' \<and> dr_type y = ''http'' \<and> dr_type z = ''http'' \<and>
    lastUpdated z < lastUpdated y \<and> lastUpdated y < lastUpdated x \<longrightarrow>
      listResources reg \<lparr>q_type = Some ''http'', q_limit = Some 1, q_offset = Some 1\<rparr> =
        \<lparr>l_x402Version = 2, items = [y],
         pagination = \<lparr>p_limit = 1, p_offset = 1, total = 3\<rparr>\<rparr>)"
proof (intro conjI impI)
  assume h: "t \<noteq> [] \<and> 0 \<le> l \<and> 0 \<le> k"
  let ?S = "sort_key (\<lambda>r. - lastUpdated r) (matching reg t)"
  have "newest_first (matching reg t) ?S"
    by (rule sort_newest_first)
  moreover have "listResources reg \<lparr>q_type = Some t, q_limit = Some l, q_offset = Some k\<rparr> =
           \<lparr>l_x402Version = 2, items = take (nat l) (drop (nat k) ?S),
            pagination = \<lparr>p_limit = l, p_offset = k, total = length (matching reg t)\<rparr>\<rparr>"
    using h by (simp add: listResources_typed js_slice_window)
  ultimately show "\<exists>S. newest_first (matching reg t) S \<and>
         listResources reg \<lparr>q_type = Some t, q_limit = Some l, q_offset = Some k\<rparr> =
           \<lparr>l_x402Version = 2, items = take (nat l) (drop (nat k) S),
            pagination = \<lparr>p_limit = l, p_offset = k, total = length (matching reg t)\<rparr>\<rparr>"
    by blast
next
  show "listResources reg \<lparr>q_type = None, q_limit = None, q_offset = None\<rparr>
     = listResources reg \<lparr>q_type = Some ''http'', q_limit = Some 20, q_offset = Some 0\<rparr>"
    by (rule listResources_defaults)
next
  show "total (pagination (listResources reg \<lparr>q_type = Some [], q_limit = Some l, q_offset = Some k\<rparr>))
     = length reg"
    by (simp add: listResources_untyped)
next
  assume "mset (map snd reg) = {#x, y, z#} \<and>
    dr_type x = ''http'' \<and> dr_type y = ''http'' \<and> dr_type z = ''http'' \<and>
    lastUpdated z < lastUpdated y \<and> lastUpdated y < lastUpdated x"
  then show "listResources reg \<lparr>q_type = Some ''http'', q_limit = Some 1, q_offset = Some 1\<rparr> =
        \<lparr>l_x402Version = 2, items = [y],
         pagination = \<lparr>p_limit = 1, p_offset = 1, total = 3\<rparr>\<rparr>"
    by (intro list_three [where x = x and z = z]) simp_all
qed

theorem listResources_pagination_witness:
  "listResources (run ex_history) \<lparr>q_type = Some ''http'', q_limit = Some 1, q_offset = Some 1\<rparr> =
     \<lparr>l_x402Version = 2, items = [ex_entry ''https://c.example'' 2000],
      pagination = \<lparr>p_limit = 1, p_offset = 1, total = 3\<rparr>\<rparr> \<and>
   items (listResources (run ex_history) \<lparr>q_type = Some ''http'', q_limit = Some 2, q_offset = Some 1\<rparr>)
      = [ex_entry ''https://c.example'' 2000, ex_entry ''https://a.example'' 1000]"
proof -
  have 1: "listResources (run ex_history) \<lparr>q_type = Some ''http'', q_limit = Some 1, q_offset = Some 1\<rparr> =
       \<lparr>l_x402Version = 2, items = [ex_entry ''https://c.example'' 2000],
        pagination = \<lparr>p_limit = 1, p_offset = 1, total = 3\<rparr>\<rparr>"
    using listResources_pagination [where reg = "run ex_history"
        and x = "ex_entry ''https://b.example'' 3000" and y = "ex_entry ''https://c.example'' 2000"
        and z = "ex_entry ''https://a.example'' 1000"]
    by (simp add: ex_run add_mset_commute) (simp add: ex_entry_def)
  have 2: "items (listResources (run ex_history) \<lparr>q_type = Some ''http'', q_limit = Some 2, q_offset = Some 1\<rparr>)
       = [ex_entry ''https://c.example'' 2000, ex_entry ''https://a.example'' 1000]"
  proof -
    have "\<exists>S. newest_first (matching (run ex_history) ''http'') S \<and>
        listResources (run ex_history) \<lparr>q_type = Some ''http'', q_limit = Some 2, q_offset = Some 1\<rparr> =
             \<lparr>l_x402Version = 2, items = take (nat 2) (drop (nat 1) S),
              pagination = \<lparr>p_limit = 2, p_offset = 1,
                total = length (matching (run ex_history) ''http'')\<rparr>\<rparr>"
      using listResources_pagination [where reg = "run ex_history" and t = "''http''"
          and l = 2 and k = 1, THEN conjunct1]
      by simp
    then obtain S where S: "newest_first (matching (run ex_history) ''http'') S"
      and l: "listResources (run ex_history) \<lparr>q_type = Some ''http'', q_limit = Some 2, q_offset = Some 1\<rparr> =
             \<lparr>l_x402Version = 2, items = take (nat 2) (drop (nat 1) S),
              pagination = \<lparr>p_limit = 2, p_offset = 1,
                total = length (matching (run ex_history) ''http'')\<rparr>\<rparr>"
      by blast
    have "matching (run ex_history) ''http'' = map snd (run ex_history)"
      by (simp add: matching_def ex_run ex_entry_def)
    with S have "S = [ex_entry ''https://b.example'' 3000, ex_entry ''https://c.example'' 2000,
        ex_entry ''https://a.example'' 1000]"
      using newest_first_unique [of "map snd (run ex_history)" S] by (simp add: ex_sorted)
    with l show ?thesis
      by simp
  qed
  from 1 2 show ?thesis by simp
qed

text \<open>
  The claim as first stated fails for the empty type, which no entry has and for which
  the total is nevertheless the size of the registry, and for a negative offset, which
  \<^verbatim>\<open>slice\<close> counts from the end of the list: offset \<open>-3\<close> with limit 2 over three entries
  returns the two newest, though no position lies in \<open>[-3, -1)\<close>.
\<close>

theorem list_empty_type_and_negative_offset:
  "matching (run ex_history) [] = [] \<and>
   total (pagination (listResources (run ex_history)
      \<lparr>q_type = Some [], q_limit = Some 20, q_offset = Some 0\<rparr>)) = 3 \<and>
   items (listResources (run ex_history)
      \<lparr>q_type = Some ''http'', q_limit = Some 2, q_offset = Some (- 3)\<rparr>)
     = [ex_entry ''https://b.example'' 3000, ex_entry ''https://c.example'' 2000]"
proof -
  have "matching (run ex_history) [] = []"
    by (simp add: matching_def ex_run ex_entry_def)
  moreover have "total (pagination (listResources (run ex_history)
      \<lparr>q_type = Some [], q_limit = Some 20, q_offset = Some 0\<rparr>)) = 3"
    by (simp add: listResources_untyped ex_run)
  moreover have "matching (run ex_history) ''http'' = map snd (run ex_history)"
    by (simp add: matching_def ex_run ex_entry_def)
  then have "items (listResources (run ex_history)
      \<lparr>q_type = Some ''http'', q_limit = Some 2, q_offset = Some (- 3)\<rparr>)
     = [ex_entry ''https://b.example'' 3000, ex_entry ''https://c.example'' 2000]"
    by (simp add: listResources_typed ex_sorted js_slice_def)
  ultimately show ?thesis
    by simp
qed

section \<open>The type of the cataloged entries\<close>

lemma run_all_http: "\<forall>r \<in> set (map snd (run ops)). dr_type r = ''http''"
  using run_http [of _ ops] by blast

lemma run_matching: "matching (run ops) ''http'' = map snd (run ops)"
  by (rule all_http_matching [OF run_all_http])

lemma run_matching_other:
  assumes "t \<noteq> ''http''"
  shows "matching (run ops) t = []"
proof -
  have "\<not> dr_type r = t" if "r \<in> set (map snd (run ops))" for r
    using run_http [OF that] assms by simp
  then show ?thesis
    unfolding matching_def by (auto simp: filter_empty_conv)
qed

text \<open>
  On two integers whose sum is below \<open>2^53\<close> in magnitude, as on every limit and offset
  that count entries, the listing on numbers is the listing on integers.
\<close>

lemma listResources_number_finite:
  assumes "\<bar>k + l\<bar> < 2 ^ 53"
  shows "listResources_number reg t (Finite l) (Finite k) =
     \<lparr>l_x402Version = 2,
      items = items (listResources reg \<lparr>q_type = Some t, q_limit = Some l, q_offset = Some k\<rparr>),
      pagination =
        \<lparr>p_limit = Finite l, p_offset = Finite k,
         total = total (pagination (listResources reg
                   \<lparr>q_type = Some t, q_limit = Some l, q_offset = Some k\<rparr>))\<rparr>\<rparr>"
proof -
  have sum: "js_add (Finite k) (Finite l) = Finite (k + l)"
    using assms by (simp add: js_add_def to_double_safe)
  have slice: "js_slice_number xs (Finite k) (Finite (k + l)) = js_slice xs k (k + l)"
    for xs :: "DiscoveredResource list"
    by (simp add: js_slice_number_def js_slice_def slice_index_def)
  show ?thesis
    by (simp add: listResources_number_def listResources_def sum slice Let_def)
qed

lemma listResources_general:
  "listResources reg \<lparr>q_type = tq, q_limit = lq, q_offset = kq\<rparr> =
     (let t = (case tq of None \<Rightarrow> ''http'' | Some t \<Rightarrow> t);
          l = (case lq of None \<Rightarrow> 20 | Some l \<Rightarrow> l);
          k = (case kq of None \<Rightarrow> 0 | Some k \<Rightarrow> k);
          S = sort_key (\<lambda>r. - lastUpdated r) (if t \<noteq> [] then matching reg t else map snd reg)
      in \<lparr>l_x402Version = 2, items = js_slice S k (k + l),
          pagination = \<lparr>p_limit = l, p_offset = k, total = length S\<rparr>\<rparr>)"
  by (simp add: listResources_def matching_def Let_def)

text \<open>
  Claim C10, as amended. After every history of catalog operations each stored entry has
  type exactly \<^verbatim>\<open>'http'\<close>. Consequently list with the default type counts every registered
  entry and, with a limit of the registry's size, returns them all; list with any other
  non-empty type returns no item and total 0; and list with the empty type, for which the
  filter is switched off, answers as list with the default type does.
\<close>

theorem catalog_entries_are_http:
  "(\<forall>r \<in> set (map snd (run ops)). dr_type r = ''http'') \<and>
   matching (run ops) ''http'' = map snd (run ops) \<and>
   total (pagination (listResources (run ops) \<lparr>q_type = None, q_limit = lq, q_offset = kq\<rparr>))
     = length (run ops) \<and>
   mset (items (listResources (run ops)
      \<lparr>q_type = None, q_limit = Some (int (length (run ops))), q_offset = None\<rparr>))
     = mset (map snd (run ops)) \<and>
   (t \<noteq> ''http'' \<and> t \<noteq> [] \<longrightarrow>
      items (listResources (run ops) \<lparr>q_type = Some t, q_limit = lq, q_offset = kq\<rparr>) = [] \<and>
      total (pagination (listResources (run ops) \<lparr>q_type = Some t, q_limit = lq, q_offset = kq\<rparr>))
        = 0) \<and>
   listResources (run ops) \<lparr>q_type = Some [], q_limit = lq, q_offset = kq\<rparr>
     = listResources (run ops) \<lparr>q_type = None, q_limit = lq, q_offset = kq\<rparr>"
proof (intro conjI impI)
  show "\<forall>r \<in> set (map snd (run ops)). dr_type r = ''http''"
    by (rule run_all_http)
  show "matching (run ops) ''http'' = map snd (run ops)"
    by (rule run_matching)
  show "total (pagination (listResources (run ops) \<lparr>q_type = None, q_limit = lq, q_offset = kq\<rparr>))
     = length (run ops)"
    by (simp add: listResources_general run_matching Let_def)
  show "mset (items (listResources (run ops)
      \<lparr>q_type = None, q_limit = Some (int (length (run ops))), q_offset = None\<rparr>))
     = mset (map snd (run ops))"
    by (simp add: listResources_general run_matching Let_def js_slice_def)
  show "listResources (run ops) \<lparr>q_type = Some [], q_limit = lq, q_offset = kq\<rparr>
     = listResources (run ops) \<lparr>q_type = None, q_limit = lq, q_offset = kq\<rparr>"
    by (simp add: listResources_general run_matching Let_def)
next
  assume h: "t \<noteq> ''http'' \<and> t \<noteq> []"
  then have none: "matching (run ops) t = []"
    by (simp add: run_matching_other)
  with h show "items (listResources (run ops) \<lparr>q_type = Some t, q_limit = lq, q_offset = kq\<rparr>) = []"
    by (simp add: listResources_general Let_def js_slice_def)
  from h none show "total (pagination (listResources (run ops)
      \<lparr>q_type = Some t, q_limit = lq, q_offset = kq\<rparr>)) = 0"
    by (simp add: listResources_general Let_def)
qed

theorem catalog_entries_are_http_witness:
  "items (listResources (run ex_history) \<lparr>q_type = Some ''json'', q_limit = None, q_offset = None\<rparr>) = [] \<and>
   total (pagination (listResources (run ex_history)
      \<lparr>q_type = Some ''json'', q_limit = None, q_offset = None\<rparr>)) = 0 \<and>
   total (pagination (listResources (run ex_history)
      \<lparr>q_type = None, q_limit = None, q_offset = None\<rparr>)) = 3"
  using catalog_entries_are_http [where ops = ex_history and t = "''json''" and lq = None and kq = None]
  by (simp add: ex_run)

text \<open>
  The claim as first stated fails for the empty type: it is another value than
  \<^verbatim>\<open>'http'\<close>, and both \<open>listResources\<close> and the discovery route answer it with every entry.
\<close>

theorem list_empty_type_returns_all:
  "[] \<noteq> ''http'' \<and>
   listResources (run ex_history) \<lparr>q_type = Some [], q_limit = None, q_offset = None\<rparr> =
     \<lparr>l_x402Version = 2,
      items = [ex_entry ''https://b.example'' 3000, ex_entry ''https://c.example'' 2000,
               ex_entry ''https://a.example'' 1000],
      pagination = \<lparr>p_limit = 20, p_offset = 0, total = 3\<rparr>\<rparr> \<and>
   items (discovery_route (run ex_history) (Some []) None None)
     = [ex_entry ''https://b.example'' 3000, ex_entry ''https://c.example'' 2000,
        ex_entry ''https://a.example'' 1000]"
proof -
  have "matching (run ex_history) ''http'' = map snd (run ex_history)"
    by (rule run_matching)
  moreover have "length (run ex_history) = 3"
    by (simp add: ex_run)
  moreover have "items (discovery_route (run ex_history) (Some []) None None) =
      js_slice_number (sort_key (\<lambda>r. - lastUpdated r) (matching (run ex_history) ''http''))
        (Finite 0) (Finite 20)"
    by (simp add: discovery_route_def listResources_number_def or_number_def js_add_def
        to_double_safe matching_def Let_def)
  ultimately show ?thesis
    by (simp add: listResources_general Let_def ex_sorted js_slice_def js_slice_number_def
        slice_index_def)
qed

end
